theory Spec2Isabelle
  imports Complex_Main "HOL-Library.Word"
begin

unbundle bit_operations_syntax

section \<open>JavaScript values, as far as the client inspects them\<close>

text \<open>
  The hook \<^verbatim>\<open>useSpeechToBrailleWebSocket\<close> stores whatever \<^verbatim>\<open>JSON.parse\<close> returns:
  the TypeScript interfaces are erased at run time, so a frame of any shape reaches the
  \<^verbatim>\<open>switch\<close>. Values are therefore modelled untyped. A number is a double: a finite
  one is a rational, an overflowing literal such as \<^verbatim>\<open>1e999\<close> parses to an infinity.
  String values are only compared with ASCII literals and tested for emptiness by the
  hook, so they are kept as \<^typ>\<open>string\<close>.
\<close>

datatype jsnum = NaN | Infinity bool | Finite rat

datatype jsval =
    JUndefined
  | JNull
  | JBool bool
  | JNum jsnum
  | JStr string
  | JArr "jsval list"
  | JObj "(string \<times> jsval) list"

text \<open>The truthiness test behind \<^verbatim>\<open>v ? a : b\<close>, \<^verbatim>\<open>if (v)\<close> and \<^verbatim>\<open>v && w\<close>.\<close>

fun ToBoolean :: "jsval \<Rightarrow> bool" where
  "ToBoolean JUndefined = False"
| "ToBoolean JNull = False"
| "ToBoolean (JBool b) = b"
| "ToBoolean (JNum NaN) = False"
| "ToBoolean (JNum (Infinity b)) = True"
| "ToBoolean (JNum (Finite q)) = (q \<noteq> 0)"
| "ToBoolean (JStr s) = (s \<noteq> [])"
| "ToBoolean (JArr vs) = True"
| "ToBoolean (JObj ps) = True"

text \<open>
  Reading one of the properties \<^verbatim>\<open>type\<close>, \<^verbatim>\<open>message\<close>, \<^verbatim>\<open>config\<close> (the only
  ones the hook reads; no prototype defines them). On \<^verbatim>\<open>null\<close> and \<^verbatim>\<open>undefined\<close>
  the read throws a TypeError, which is \<open>None\<close>; on an object it is the own property
  or \<^verbatim>\<open>undefined\<close>; on every other value it is \<^verbatim>\<open>undefined\<close>.
\<close>

fun getProp :: "jsval \<Rightarrow> string \<Rightarrow> jsval option" where
  "getProp JUndefined k = None"
| "getProp JNull k = None"
| "getProp (JObj ps) k = Some (case map_of ps k of None \<Rightarrow> JUndefined | Some v \<Rightarrow> v)"
| "getProp (JBool b) k = Some JUndefined"
| "getProp (JNum n) k = Some JUndefined"
| "getProp (JStr s) k = Some JUndefined"
| "getProp (JArr vs) k = Some JUndefined"

text \<open>
  The \<^verbatim>\<open>data\<close> of a message event after \<^verbatim>\<open>JSON.parse\<close>: the parse either throws a
  SyntaxError or returns a value.
\<close>

datatype frame = Unparsable | Parsed jsval

section \<open>The browser objects the hook holds\<close>

datatype readyState = CONNECTING | OPEN | CLOSING | CLOSED

datatype timer_state = Pending | Fired | Cleared

text \<open>
  A \<^verbatim>\<open>Float32Array\<close> is a view on an \<^verbatim>\<open>ArrayBuffer\<close>: the bytes of the whole buffer,
  the offset of the view in bytes and the number of its elements (its \<^verbatim>\<open>length\<close>).
\<close>

record Float32Array =
  buffer :: "8 word list"
  byteOffset :: nat
  elements :: nat

text \<open>
  What \<^verbatim>\<open>send\<close> was given: the value handed to \<^verbatim>\<open>JSON.stringify\<close> for a text frame,
  the bytes of the \<^verbatim>\<open>ArrayBuffer\<close> for a binary one.
\<close>

datatype payload = Text jsval | Binary "8 word list"

datatype ConnectionStatus = Disconnected | Connecting | Connected | Ready | ErrorStatus

text \<open>
  One record holds the hook's three refs, its eight state cells and the part of the
  browser they act on:
  \<^item> \<open>sockets\<close>: every \<^verbatim>\<open>WebSocket\<close> constructed so far, by creation index, with its
    \<^verbatim>\<open>readyState\<close>. A socket that \<open>wsRef\<close> no longer points to keeps its handlers, so
    it stays in the store;
  \<^item> \<open>sent\<close>: the frames given to \<^verbatim>\<open>send\<close>, oldest first, with the socket's index;
  \<^item> \<open>timers\<close>: every timeout created so far with its delay in milliseconds; the
    timer with identifier \<open>t\<close> (identifiers start at 1) is entry \<open>t - 1\<close>;
  \<^item> \<open>urlAccepted\<close>: whether \<^verbatim>\<open>new WebSocket(url)\<close> accepts the hook's \<^verbatim>\<open>url\<close> (it
    throws a SyntaxError on a malformed one).
  All eight state cells are written through their setters only and never read by the
  handlers, so the batched updates of the framework are the sequential updates below.
\<close>

record hook =
  urlAccepted :: bool
  sockets :: "readyState list"
  sent :: "(nat \<times> payload) list"
  timers :: "(nat \<times> timer_state) list"
  wsRef :: "nat option"
  reconnectTimeoutRef :: "nat option"
  reconnectAttemptsRef :: nat
  connectionStatus :: ConnectionStatus
  error :: jsval
  isRecording :: bool
  isSpeaking :: bool
  isProcessing :: bool
  result :: jsval
  accumulatedResults :: "jsval list"
  statusInfo :: jsval

text \<open>The hook as first rendered: the initial values of \<^verbatim>\<open>useRef\<close> and \<^verbatim>\<open>useState\<close>.\<close>

definition initial :: "bool \<Rightarrow> hook" where
  "initial ok =
     \<lparr> urlAccepted = ok, sockets = [], sent = [], timers = [],
       wsRef = None, reconnectTimeoutRef = None, reconnectAttemptsRef = 0,
       connectionStatus = Disconnected, error = JNull,
       isRecording = False, isSpeaking = False, isProcessing = False,
       result = JNull, accumulatedResults = [], statusInfo = JNull \<rparr>"

definition isReady :: "hook \<Rightarrow> bool" where
  "isReady s = (connectionStatus s = Ready)"

subsection \<open>Browser primitives\<close>

definition readyStateOf :: "hook \<Rightarrow> nat \<Rightarrow> readyState option" where
  "readyStateOf s i = (if i < length (sockets s) then Some (sockets s ! i) else None)"

text \<open>
  The guard \<^verbatim>\<open>!wsRef.current || wsRef.current.readyState !== WebSocket.OPEN\<close> fails
  exactly when \<open>wsOpen\<close> returns the socket.
\<close>

definition wsOpen :: "hook \<Rightarrow> nat option" where
  "wsOpen s =
     (case wsRef s of
        None \<Rightarrow> None
      | Some i \<Rightarrow> if readyStateOf s i = Some OPEN then Some i else None)"

definition ws_send :: "nat \<Rightarrow> payload \<Rightarrow> hook \<Rightarrow> hook" where
  "ws_send i p s = s\<lparr>sent := sent s @ [(i, p)]\<rparr>"

text \<open>\<^verbatim>\<open>close()\<close> starts the closing handshake; on a closing or closed socket it does nothing.\<close>

definition ws_close :: "nat \<Rightarrow> hook \<Rightarrow> hook" where
  "ws_close i s =
     (if readyStateOf s i = Some CONNECTING then s\<lparr>sockets := (sockets s)[i := CLOSING]\<rparr>
      else if readyStateOf s i = Some OPEN then s\<lparr>sockets := (sockets s)[i := CLOSING]\<rparr>
      else s)"

definition setTimeout :: "nat \<Rightarrow> hook \<Rightarrow> nat \<times> hook" where
  "setTimeout d s = (Suc (length (timers s)), s\<lparr>timers := timers s @ [(d, Pending)]\<rparr>)"

definition timerPending :: "hook \<Rightarrow> nat \<Rightarrow> bool" where
  "timerPending s t =
     (if t = 0 then False
      else if length (timers s) < t then False
      else snd (timers s ! (t - 1)) = Pending)"

definition clearTimeout :: "nat \<Rightarrow> hook \<Rightarrow> hook" where
  "clearTimeout t s =
     (if timerPending s t
      then s\<lparr>timers := (timers s)[t - 1 := (fst (timers s ! (t - 1)), Cleared)]\<rparr>
      else s)"

subsection \<open>The handlers of the hook\<close>

definition handleMessage :: "frame \<Rightarrow> hook \<Rightarrow> hook" where
  "handleMessage f s =
     (case f of
        Unparsable \<Rightarrow> s
      | Parsed message \<Rightarrow>
          (case getProp message ''type'' of
             None \<Rightarrow> s
           | Some t \<Rightarrow>
               if t = JStr ''ready'' then
                 s\<lparr>connectionStatus := Ready, error := JNull, reconnectAttemptsRef := 0\<rparr>
               else if t = JStr ''config_updated'' then s
               else if t = JStr ''recording_started'' then
                 s\<lparr>isRecording := True, error := JNull, accumulatedResults := [],
                   result := JNull\<rparr>
               else if t = JStr ''recording_stopped'' then
                 s\<lparr>isRecording := False, isSpeaking := False\<rparr>
               else if t = JStr ''speech_started'' then s\<lparr>isSpeaking := True\<rparr>
               else if t = JStr ''speech_ended'' then s\<lparr>isSpeaking := False\<rparr>
               else if t = JStr ''status'' then s\<lparr>statusInfo := message\<rparr>
               else if t = JStr ''processing'' then s\<lparr>isProcessing := True\<rparr>
               else if t = JStr ''result'' then
                 s\<lparr>result := message,
                   accumulatedResults := accumulatedResults s @ [message],
                   isProcessing := False\<rparr>
               else if t = JStr ''error'' then
                 s\<lparr>error := (case getProp message ''message'' of
                               None \<Rightarrow> JUndefined | Some m \<Rightarrow> m),
                   isProcessing := False\<rparr>
               else s))"

definition handleError :: "hook \<Rightarrow> hook" where
  "handleError s =
     s\<lparr>error := JStr ''Connection error occurred'', connectionStatus := ErrorStatus\<rparr>"

definition onopen :: "hook \<Rightarrow> hook" where
  "onopen s = s\<lparr>connectionStatus := Connected\<rparr>"

definition connect :: "hook \<Rightarrow> hook" where
  "connect s =
     (case wsOpen s of
        Some i \<Rightarrow> s
      | None \<Rightarrow>
          (let s1 = s\<lparr>connectionStatus := Connecting, error := JNull\<rparr> in
           if urlAccepted s1
           then s1\<lparr>sockets := sockets s1 @ [CONNECTING], wsRef := Some (length (sockets s1))\<rparr>
           else s1\<lparr>error := JStr ''Failed to establish connection'',
                    connectionStatus := ErrorStatus\<rparr>))"

text \<open>The callback that \<open>handleClose\<close> gives to \<^verbatim>\<open>setTimeout\<close>.\<close>

definition reconnect :: "hook \<Rightarrow> hook" where
  "reconnect s = connect (s\<lparr>reconnectAttemptsRef := reconnectAttemptsRef s + 1\<rparr>)"

definition handleClose :: "hook \<Rightarrow> hook" where
  "handleClose s =
     (let s1 = s\<lparr>connectionStatus := Disconnected, isRecording := False,
                 isSpeaking := False, isProcessing := False\<rparr> in
      if reconnectAttemptsRef s1 < 5 then
        (let delay = min (1000 * 2 ^ reconnectAttemptsRef s1) 10000;
             (t, s2) = setTimeout delay s1
         in s2\<lparr>reconnectTimeoutRef := Some t\<rparr>)
      else s1\<lparr>error := JStr ''Failed to reconnect after multiple attempts''\<rparr>)"

definition disconnect :: "hook \<Rightarrow> hook" where
  "disconnect s =
     (let s1 = (case reconnectTimeoutRef s of
                  None \<Rightarrow> s
                | Some t \<Rightarrow>
                    if t = 0 then s
                    else (clearTimeout t s)\<lparr>reconnectTimeoutRef := None\<rparr>);
          s2 = (case wsRef s1 of
                  None \<Rightarrow> s1
                | Some i \<Rightarrow> (ws_close i s1)\<lparr>wsRef := None\<rparr>)
      in s2\<lparr>connectionStatus := Disconnected, isRecording := False,
            isSpeaking := False, isProcessing := False\<rparr>)"

definition startRecording :: "hook \<Rightarrow> hook" where
  "startRecording s =
     (case wsOpen s of
        None \<Rightarrow> s\<lparr>error := JStr ''Not connected to server''\<rparr>
      | Some i \<Rightarrow>
          ws_send i (Text (JObj [(''type'', JStr ''start_recording'')]))
            (s\<lparr>result := JNull, statusInfo := JNull\<rparr>))"

definition stopRecording :: "hook \<Rightarrow> hook" where
  "stopRecording s =
     (case wsOpen s of
        None \<Rightarrow> s
      | Some i \<Rightarrow> ws_send i (Text (JObj [(''type'', JStr ''stop_recording'')])) s)"

text \<open>
  The frame is \<^verbatim>\<open>audioData.buffer\<close>: the whole buffer under the view, also where the
  view covers a part of it only.
\<close>

definition sendAudioChunk :: "Float32Array \<Rightarrow> hook \<Rightarrow> hook" where
  "sendAudioChunk audioData s =
     (case wsOpen s of
        None \<Rightarrow> s
      | Some i \<Rightarrow> ws_send i (Binary (buffer audioData)) s)"

definition updateConfig :: "jsval \<Rightarrow> hook \<Rightarrow> hook" where
  "updateConfig config s =
     (case wsOpen s of
        None \<Rightarrow> s\<lparr>error := JStr ''Not connected to server''\<rparr>
      | Some i \<Rightarrow>
          ws_send i (Text (JObj [(''type'', JStr ''config''), (''config'', config)])) s)"

subsection \<open>Events of the browser\<close>

text \<open>
  Each event runs the handler the hook attached in \<open>connect\<close>, to completion. A socket
  opens from \<open>CONNECTING\<close>; a message event is dispatched on an open socket only; a close
  event sets the socket to \<open>CLOSED\<close> and fires once per socket; a failed connection
  fires the error event and then the close event in the same task; a pending timeout
  fires once. An event that cannot occur in a state leaves it unchanged.
\<close>

definition socket_open :: "nat \<Rightarrow> hook \<Rightarrow> hook" where
  "socket_open i s =
     (if readyStateOf s i = Some CONNECTING
      then onopen (s\<lparr>sockets := (sockets s)[i := OPEN]\<rparr>)
      else s)"

definition socket_message :: "nat \<Rightarrow> frame \<Rightarrow> hook \<Rightarrow> hook" where
  "socket_message i f s = (if readyStateOf s i = Some OPEN then handleMessage f s else s)"

definition closable :: "hook \<Rightarrow> nat \<Rightarrow> bool" where
  "closable s i =
     (case readyStateOf s i of None \<Rightarrow> False | Some CLOSED \<Rightarrow> False | Some r \<Rightarrow> True)"

definition socket_close :: "nat \<Rightarrow> hook \<Rightarrow> hook" where
  "socket_close i s =
     (if closable s i then handleClose (s\<lparr>sockets := (sockets s)[i := CLOSED]\<rparr>) else s)"

definition socket_fail :: "nat \<Rightarrow> hook \<Rightarrow> hook" where
  "socket_fail i s =
     (if closable s i
      then handleClose (handleError (s\<lparr>sockets := (sockets s)[i := CLOSED]\<rparr>))
      else s)"

definition timer_fire :: "nat \<Rightarrow> hook \<Rightarrow> hook" where
  "timer_fire t s =
     (if timerPending s t
      then reconnect (s\<lparr>timers := (timers s)[t - 1 := (fst (timers s ! (t - 1)), Fired)]\<rparr>)
      else s)"

section \<open>The component \<^verbatim>\<open>SpeechToBraille\<close>\<close>

datatype StatusType = Idle | Listening | Processing | Success | Error

text \<open>
  The conditional chain over \<^verbatim>\<open>wsError\<close>, \<^verbatim>\<open>isProcessing\<close>, \<^verbatim>\<open>result\<close> and
  \<^verbatim>\<open>wsIsRecording\<close>, the values the hook returned for this render.
\<close>

definition status :: "hook \<Rightarrow> StatusType" where
  "status s =
     (if ToBoolean (error s) then Error
      else if isProcessing s then Processing
      else if ToBoolean (result s) then Success
      else if isRecording s then Listening
      else Idle)"

section \<open>Braille cells\<close>

text \<open>
  \<^verbatim>\<open>getBrailleDots\<close> is declared twice with the same body, in \<^verbatim>\<open>BrailleTranslator.tsx\<close>
  and in the \<^verbatim>\<open>SpeechToBraille\<close> component. A JavaScript string is a sequence of
  16-bit code units; \<^verbatim>\<open>charCodeAt(0)\<close> is the first one, and \<^verbatim>\<open>NaN\<close> (here
  \<open>None\<close>) on the empty string.
\<close>

definition charCodeAt0 :: "16 word list \<Rightarrow> nat option" where
  "charCodeAt0 char = (case char of [] \<Rightarrow> None | c # cs \<Rightarrow> Some (unat c))"

text \<open>
  On \<^verbatim>\<open>NaN\<close> both comparisons of the range test are false, the offset is \<^verbatim>\<open>NaN\<close>,
  every \<^verbatim>\<open>offset & m\<close> is 0 and nothing is pushed.
\<close>

definition getBrailleDots :: "16 word list \<Rightarrow> nat list" where
  "getBrailleDots char =
     (case charCodeAt0 char of
        None \<Rightarrow> []
      | Some codePoint \<Rightarrow>
          if codePoint < 0x2800 \<or> codePoint > 0x28ff then []
          else
            (let offset = codePoint - 0x2800;
                 dots = [];
                 dots = (if offset AND 0x01 \<noteq> 0 then dots @ [1] else dots);
                 dots = (if offset AND 0x02 \<noteq> 0 then dots @ [2] else dots);
                 dots = (if offset AND 0x04 \<noteq> 0 then dots @ [3] else dots);
                 dots = (if offset AND 0x08 \<noteq> 0 then dots @ [4] else dots);
                 dots = (if offset AND 0x10 \<noteq> 0 then dots @ [5] else dots);
                 dots = (if offset AND 0x20 \<noteq> 0 then dots @ [6] else dots);
                 dots = (if offset AND 0x40 \<noteq> 0 then dots @ [7] else dots);
                 dots = (if offset AND 0x80 \<noteq> 0 then dots @ [8] else dots)
             in dots))"

section \<open>Vocabulary of the properties\<close>

text \<open>The eleven members of the type \<^verbatim>\<open>ServerMessageType\<close>.\<close>

definition ServerMessageType :: "string list" where
  "ServerMessageType =
     [''ready'', ''config_updated'', ''recording_started'', ''recording_stopped'',
      ''speech_started'', ''speech_ended'', ''vad_status'', ''status'', ''processing'',
      ''result'', ''error'']"

text \<open>A frame is of type \<open>n\<close> when it parses to a value whose \<^verbatim>\<open>type\<close> is the string \<open>n\<close>.\<close>

definition typed :: "string \<Rightarrow> frame \<Rightarrow> bool" where
  "typed n f =
     (case f of Unparsable \<Rightarrow> False | Parsed v \<Rightarrow> getProp v ''type'' = Some (JStr n))"

definition recognized :: "frame \<Rightarrow> bool" where
  "recognized f = list_ex (\<lambda>n. typed n f) ServerMessageType"

text \<open>A sequence of inbound frames, handled in order of receipt.\<close>

definition receive :: "frame list \<Rightarrow> hook \<Rightarrow> hook" where
  "receive fs s = foldl (\<lambda>s' f. handleMessage f s') s fs"

fun resultsOf :: "frame list \<Rightarrow> jsval list" where
  "resultsOf [] = []"
| "resultsOf (Unparsable # fs) = resultsOf fs"
| "resultsOf (Parsed v # fs) =
     (if typed ''result'' (Parsed v) then v # resultsOf fs else resultsOf fs)"

text \<open>
  One failed attempt: the socket the hook holds closes without a call of \<open>disconnect\<close>,
  then the timeout that \<open>handleClose\<close> stored fires.
\<close>

definition fail_round :: "hook \<Rightarrow> hook" where
  "fail_round s =
     (case wsRef s of
        None \<Rightarrow> s
      | Some i \<Rightarrow>
          (let s1 = socket_close i s in
           case reconnectTimeoutRef s1 of None \<Rightarrow> s1 | Some t \<Rightarrow> timer_fire t s1))"

definition backoff :: "nat \<Rightarrow> nat" where
  "backoff n = min (1000 * 2 ^ n) 10000"

subsection \<open>Calls and events, one at a time\<close>

text \<open>
  Every call the hook exposes and every event the browser delivers to it, and a run of
  them in order.
\<close>

datatype action =
    Connect
  | Disconnect
  | StartRecording
  | StopRecording
  | SendAudioChunk Float32Array
  | UpdateConfig jsval
  | SocketOpen nat
  | SocketMessage nat frame
  | SocketClose nat
  | SocketFail nat
  | TimerFire nat

fun perform :: "action \<Rightarrow> hook \<Rightarrow> hook" where
  "perform Connect s = connect s"
| "perform Disconnect s = disconnect s"
| "perform StartRecording s = startRecording s"
| "perform StopRecording s = stopRecording s"
| "perform (SendAudioChunk audioData) s = sendAudioChunk audioData s"
| "perform (UpdateConfig config) s = updateConfig config s"
| "perform (SocketOpen i) s = socket_open i s"
| "perform (SocketMessage i f) s = socket_message i f s"
| "perform (SocketClose i) s = socket_close i s"
| "perform (SocketFail i) s = socket_fail i s"
| "perform (TimerFire t) s = timer_fire t s"

definition run :: "action list \<Rightarrow> hook \<Rightarrow> hook" where
  "run acts s = foldl (\<lambda>s' a. perform a s') s acts"

text \<open>The index that the socket constructed next will have in the store.\<close>

definition new_socket :: "hook \<Rightarrow> nat" where
  "new_socket s = length (sockets s)"

text \<open>The action is a frame of type \<^verbatim>\<open>ready\<close> arriving on some socket.\<close>

fun is_ready_message :: "action \<Rightarrow> bool" where
  "is_ready_message (SocketMessage i f) = typed ''ready'' f"
| "is_ready_message a = False"

text \<open>The action is a ready frame that the browser does dispatch: its socket is open.\<close>

fun delivers_ready :: "action \<Rightarrow> hook \<Rightarrow> bool" where
  "delivers_ready (SocketMessage i f) s = (typed ''ready'' f \<and> readyStateOf s i = Some OPEN)"
| "delivers_ready a s = False"

text \<open>The action is a timeout that is still pending, so its callback runs.\<close>

fun fires_timer :: "action \<Rightarrow> hook \<Rightarrow> bool" where
  "fires_timer (TimerFire t) s = timerPending s t"
| "fires_timer a s = False"

subsection \<open>Concrete sessions\<close>

definition readyFrame :: frame where
  "readyFrame =
     Parsed (JObj [(''type'', JStr ''ready''), (''message'', JStr ''ok''), (''model'', JStr ''m'')])"

definition resultFrame :: "string \<Rightarrow> frame" where
  "resultFrame txt =
     Parsed (JObj [(''type'', JStr ''result''), (''transcribed_text'', JStr txt),
                   (''braille'', JStr txt), (''table_used'', JStr ''en-ueb-g2.ctb''),
                   (''success'', JBool True)])"

definition errorFrame :: "string \<Rightarrow> frame" where
  "errorFrame msg = Parsed (JObj [(''type'', JStr ''error''), (''message'', JStr msg)])"

definition typeFrame :: "string \<Rightarrow> frame" where
  "typeFrame n = Parsed (JObj [(''type'', JStr n)])"

definition someConfig :: jsval where
  "someConfig =
     JObj [(''braille_table'', JStr ''en-ueb-g2.ctb''), (''language'', JNull),
           (''task'', JStr ''transcribe'')]"

text \<open>The hook after \<open>connect\<close> and the open event, and after the server's ready frame.\<close>

definition connected_session :: hook where
  "connected_session = socket_open 0 (connect (initial True))"

definition ready_session :: hook where
  "ready_session = socket_message 0 readyFrame connected_session"

text \<open>Five failed attempts in a row from the ready session, then the sixth close.\<close>

definition exhausted_session :: hook where
  "exhausted_session =
     socket_close 5 (fail_round (fail_round (fail_round (fail_round (fail_round ready_session)))))"

text \<open>The user disconnects the ready session; then the close event of its socket arrives.\<close>

definition disconnected_session :: hook where
  "disconnected_session = disconnect ready_session"

definition after_disconnect_close :: hook where
  "after_disconnect_close = socket_close 0 disconnected_session"

text \<open>
  The ready session after the server reported an error with an empty message and then
  announced processing.
\<close>

definition blank_error_session :: hook where
  "blank_error_session =
     handleMessage (typeFrame ''processing'') (handleMessage (errorFrame '''') ready_session)"

section \<open>The concrete sessions, evaluated\<close>

lemma connected_session_eq:
  "connected_session =
     \<lparr> urlAccepted = True, sockets = [OPEN], sent = [], timers = [],
       wsRef = Some 0, reconnectTimeoutRef = None, reconnectAttemptsRef = 0,
       connectionStatus = Connected, error = JNull,
       isRecording = False, isSpeaking = False, isProcessing = False,
       result = JNull, accumulatedResults = [], statusInfo = JNull \<rparr>"
  by (simp add: connected_session_def socket_open_def connect_def initial_def
      wsOpen_def readyStateOf_def onopen_def)

lemma ready_session_eq:
  "ready_session =
     \<lparr> urlAccepted = True, sockets = [OPEN], sent = [], timers = [],
       wsRef = Some 0, reconnectTimeoutRef = None, reconnectAttemptsRef = 0,
       connectionStatus = Ready, error = JNull,
       isRecording = False, isSpeaking = False, isProcessing = False,
       result = JNull, accumulatedResults = [], statusInfo = JNull \<rparr>"
  by (simp add: ready_session_def connected_session_eq socket_message_def
      readyStateOf_def handleMessage_def readyFrame_def)

section \<open>Facts about the handlers\<close>

lemma handleMessage_dispatch:
  "getProp v ''type'' = Some t \<Longrightarrow>
   handleMessage (Parsed v) s =
     (if t = JStr ''ready'' then
        s\<lparr>connectionStatus := Ready, error := JNull, reconnectAttemptsRef := 0\<rparr>
      else if t = JStr ''config_updated'' then s
      else if t = JStr ''recording_started'' then
        s\<lparr>isRecording := True, error := JNull, accumulatedResults := [], result := JNull\<rparr>
      else if t = JStr ''recording_stopped'' then s\<lparr>isRecording := False, isSpeaking := False\<rparr>
      else if t = JStr ''speech_started'' then s\<lparr>isSpeaking := True\<rparr>
      else if t = JStr ''speech_ended'' then s\<lparr>isSpeaking := False\<rparr>
      else if t = JStr ''status'' then s\<lparr>statusInfo := v\<rparr>
      else if t = JStr ''processing'' then s\<lparr>isProcessing := True\<rparr>
      else if t = JStr ''result'' then
        s\<lparr>result := v, accumulatedResults := accumulatedResults s @ [v], isProcessing := False\<rparr>
      else if t = JStr ''error'' then
        s\<lparr>error := (case getProp v ''message'' of None \<Rightarrow> JUndefined | Some m \<Rightarrow> m),
          isProcessing := False\<rparr>
      else s)"
  by (simp add: handleMessage_def)

lemma typed_Parsed: "typed n (Parsed v) = (getProp v ''type'' = Some (JStr n))"
  by (simp add: typed_def)

lemma typed_Unparsable: "\<not> typed n Unparsable"
  by (simp add: typed_def)

lemma handleMessage_ready:
  "typed ''ready'' f \<Longrightarrow>
   handleMessage f s = s\<lparr>connectionStatus := Ready, error := JNull, reconnectAttemptsRef := 0\<rparr>"
  by (cases f) (simp_all add: typed_def handleMessage_dispatch)

lemma handleMessage_recording_started:
  "typed ''recording_started'' f \<Longrightarrow>
   handleMessage f s =
     s\<lparr>isRecording := True, error := JNull, accumulatedResults := [], result := JNull\<rparr>"
  by (cases f) (simp_all add: typed_def handleMessage_dispatch)

lemma handleMessage_result:
  "typed ''result'' (Parsed v) \<Longrightarrow>
   handleMessage (Parsed v) s =
     s\<lparr>result := v, accumulatedResults := accumulatedResults s @ [v], isProcessing := False\<rparr>"
  by (simp add: typed_def handleMessage_dispatch)

lemma handleMessage_keeps_results:
  assumes "\<not> typed ''result'' f" and "\<not> typed ''recording_started'' f"
  shows "accumulatedResults (handleMessage f s) = accumulatedResults s"
    and "result (handleMessage f s) = result s"
proof -
  have "accumulatedResults (handleMessage f s) = accumulatedResults s
      \<and> result (handleMessage f s) = result s"
  proof (cases f)
    case Unparsable
    then show ?thesis by (simp add: handleMessage_def)
  next
    case (Parsed v)
    show ?thesis
    proof (cases "getProp v ''type''")
      case None
      with Parsed show ?thesis by (simp add: handleMessage_def)
    next
      case (Some t)
      from assms Parsed Some have "t \<noteq> JStr ''result''" "t \<noteq> JStr ''recording_started''"
        by (simp_all add: typed_def)
      with Parsed Some show ?thesis by (simp add: handleMessage_dispatch)
    qed
  qed
  then show "accumulatedResults (handleMessage f s) = accumulatedResults s"
    and "result (handleMessage f s) = result s" by simp_all
qed

lemma receive_Cons: "receive (f # fs) s = receive fs (handleMessage f s)"
  by (simp add: receive_def)

lemma receive_results:
  "\<forall>f \<in> set fs. \<not> typed ''recording_started'' f \<Longrightarrow>
   accumulatedResults (receive fs s) = accumulatedResults s @ resultsOf fs \<and>
   result (receive fs s) = (if resultsOf fs = [] then result s else last (resultsOf fs))"
proof (induction fs arbitrary: s)
  case Nil
  show ?case by (simp add: receive_def)
next
  case (Cons f fs)
  let ?s = "handleMessage f s"
  have ih: "accumulatedResults (receive fs ?s) = accumulatedResults ?s @ resultsOf fs
      \<and> result (receive fs ?s) = (if resultsOf fs = [] then result ?s else last (resultsOf fs))"
    using Cons by simp
  have ns: "\<not> typed ''recording_started'' f" using Cons.prems by simp
  show ?case
  proof (cases "typed ''result'' f")
    case True
    then obtain v where v: "f = Parsed v" by (cases f) (simp_all add: typed_def)
    from True v have r: "resultsOf (f # fs) = v # resultsOf fs" by simp
    from True v have h: "?s = s\<lparr>result := v, accumulatedResults := accumulatedResults s @ [v],
        isProcessing := False\<rparr>"
      by (simp add: handleMessage_result)
    show ?thesis using ih unfolding receive_Cons r h by simp
  next
    case False
    then have r: "resultsOf (f # fs) = resultsOf fs" by (cases f) simp_all
    from handleMessage_keeps_results[OF False ns, of s] ih
    show ?thesis unfolding receive_Cons r by simp
  qed
qed

lemma length_resultsOf: "length (resultsOf fs) = length (filter (typed ''result'') fs)"
  by (induction fs rule: resultsOf.induct) (simp_all add: typed_Unparsable)

lemma map_Parsed_resultsOf: "map Parsed (resultsOf fs) = filter (typed ''result'') fs"
  by (induction fs rule: resultsOf.induct) (simp_all add: typed_Unparsable)


section \<open>The result accumulation\<close>

text \<open>
  Claim C6. For every sequence of inbound frames: a \<^verbatim>\<open>recording_started\<close> frame empties
  the accumulation and clears the latest result whatever they held before; and after any
  further frames, none of them \<^verbatim>\<open>recording_started\<close> and \<open>N\<close> of them of type
  \<^verbatim>\<open>result\<close>, the accumulation holds exactly those \<open>N\<close> messages in the order of
  receipt, and the latest result is the last one appended (still cleared when \<open>N = 0\<close>).
\<close>

theorem accumulation_since_recording_started:
  assumes "typed ''recording_started'' f0"
    and "\<forall>f \<in> set fs. \<not> typed ''recording_started'' f"
    and "length (filter (typed ''result'') fs) = N"
  shows "accumulatedResults (handleMessage f0 s) = []
       \<and> result (handleMessage f0 s) = JNull
       \<and> length (accumulatedResults (receive fs (handleMessage f0 s))) = N
       \<and> map Parsed (accumulatedResults (receive fs (handleMessage f0 s)))
           = filter (typed ''result'') fs
       \<and> result (receive fs (handleMessage f0 s))
           = (if N = 0 then JNull
              else last (accumulatedResults (receive fs (handleMessage f0 s))))"
proof -
  let ?s0 = "handleMessage f0 s"
  have a0: "accumulatedResults ?s0 = []" and r0: "result ?s0 = JNull"
    using assms(1) by (simp_all add: handleMessage_recording_started)
  from receive_results[OF assms(2), of ?s0] a0 r0
  have acc: "accumulatedResults (receive fs ?s0) = resultsOf fs"
    and res: "result (receive fs ?s0) = (if resultsOf fs = [] then JNull else last (resultsOf fs))"
    by simp_all
  have len: "length (accumulatedResults (receive fs ?s0)) = N"
    using acc assms(3) by (simp add: length_resultsOf)
  have ord: "map Parsed (accumulatedResults (receive fs ?s0)) = filter (typed ''result'') fs"
    using acc by (simp add: map_Parsed_resultsOf)
  have "(resultsOf fs = []) = (N = 0)"
    using assms(3) length_resultsOf[of fs] by auto
  then have lst: "result (receive fs ?s0)
      = (if N = 0 then JNull else last (accumulatedResults (receive fs ?s0)))"
    using acc res by simp
  from a0 r0 len ord lst show ?thesis by simp
qed

theorem accumulation_since_recording_started_witness:
  "typed ''recording_started'' (typeFrame ''recording_started'')
   \<and> list_all (\<lambda>f. \<not> typed ''recording_started'' f)
        [resultFrame ''a'', typeFrame ''processing'', Unparsable, resultFrame ''b'']
   \<and> accumulatedResults
        (receive [resultFrame ''a'', typeFrame ''processing'', Unparsable, resultFrame ''b'']
           (handleMessage (typeFrame ''recording_started'')
              (handleMessage (resultFrame ''old'') ready_session)))
       = [JObj [(''type'', JStr ''result''), (''transcribed_text'', JStr ''a''),
                (''braille'', JStr ''a''), (''table_used'', JStr ''en-ueb-g2.ctb''),
                (''success'', JBool True)],
          JObj [(''type'', JStr ''result''), (''transcribed_text'', JStr ''b''),
                (''braille'', JStr ''b''), (''table_used'', JStr ''en-ueb-g2.ctb''),
                (''success'', JBool True)]]"
proof -
  let ?fs = "[resultFrame ''a'', typeFrame ''processing'', Unparsable, resultFrame ''b'']"
  have h1: "typed ''recording_started'' (typeFrame ''recording_started'')"
    by (simp add: typed_def typeFrame_def)
  have h2: "\<forall>f \<in> set ?fs. \<not> typed ''recording_started'' f"
    by (simp add: typed_def typeFrame_def resultFrame_def)
  have h3: "length (filter (typed ''result'') ?fs) = 2"
    by (simp add: typed_def typeFrame_def resultFrame_def)
  have flt: "filter (typed ''result'') ?fs = [resultFrame ''a'', resultFrame ''b'']"
    by (simp add: typed_def typeFrame_def resultFrame_def)
  from accumulation_since_recording_started[OF h1 h2 h3,
      of "handleMessage (resultFrame ''old'') ready_session"]
  have "map Parsed (accumulatedResults (receive ?fs
          (handleMessage (typeFrame ''recording_started'')
             (handleMessage (resultFrame ''old'') ready_session))))
        = [resultFrame ''a'', resultFrame ''b'']"
    unfolding flt by simp
  then have "accumulatedResults (receive ?fs
          (handleMessage (typeFrame ''recording_started'')
             (handleMessage (resultFrame ''old'') ready_session)))
        = [JObj [(''type'', JStr ''result''), (''transcribed_text'', JStr ''a''),
                (''braille'', JStr ''a''), (''table_used'', JStr ''en-ueb-g2.ctb''),
                (''success'', JBool True)],
          JObj [(''type'', JStr ''result''), (''transcribed_text'', JStr ''b''),
                (''braille'', JStr ''b''), (''table_used'', JStr ''en-ueb-g2.ctb''),
                (''success'', JBool True)]]"
    by (simp add: resultFrame_def map_eq_Cons_conv)
  with h1 h2 show ?thesis by (simp add: list_all_iff)
qed

section \<open>Frames outside the protocol\<close>

lemma recognizedI:
  "getProp v ''type'' = Some (JStr n) \<Longrightarrow> n \<in> set ServerMessageType \<Longrightarrow> recognized (Parsed v)"
  by (auto simp: recognized_def list_ex_iff typed_def)

text \<open>
  Claim C8. A text frame that fails to parse, or whose \<^verbatim>\<open>type\<close> is missing or is not one
  of the protocol's message types, leaves the whole state of the hook as it was:
  connection status (so a ready connection stays ready), flags, error message,
  accumulation, refs. The handler returns normally: the exceptions of the parse and of
  the property read are caught inside it.
\<close>

theorem unrecognized_frame_ignored:
  "\<not> recognized f \<Longrightarrow> handleMessage f s = s"
proof (cases f)
  case Unparsable
  then show ?thesis by (simp add: handleMessage_def)
next
  case (Parsed v)
  assume nr: "\<not> recognized f"
  show ?thesis
  proof (cases "getProp v ''type''")
    case None
    with Parsed show ?thesis by (simp add: handleMessage_def)
  next
    case (Some t)
    have ne: "t \<noteq> JStr n" if "n \<in> set ServerMessageType" for n
      using recognizedI[of v n] that nr Parsed Some by auto
    have "t \<noteq> JStr ''ready''" "t \<noteq> JStr ''config_updated''"
      "t \<noteq> JStr ''recording_started''" "t \<noteq> JStr ''recording_stopped''"
      "t \<noteq> JStr ''speech_started''" "t \<noteq> JStr ''speech_ended''"
      "t \<noteq> JStr ''status''" "t \<noteq> JStr ''processing''"
      "t \<noteq> JStr ''result''" "t \<noteq> JStr ''error''"
      by (rule ne, simp add: ServerMessageType_def)+
    with Parsed Some show ?thesis by (simp add: handleMessage_dispatch)
  qed
qed

theorem unrecognized_frame_ignored_witness:
  "\<not> recognized (typeFrame ''unknown_type'')
   \<and> handleMessage (typeFrame ''unknown_type'') ready_session = ready_session
   \<and> connectionStatus (handleMessage (typeFrame ''unknown_type'') ready_session) = Ready
   \<and> handleMessage Unparsable ready_session = ready_session
   \<and> handleMessage (Parsed (JObj [(''message'', JStr ''no type'')])) ready_session
       = ready_session
   \<and> handleMessage (Parsed JNull) ready_session = ready_session"
proof -
  have n1: "\<not> recognized (typeFrame ''unknown_type'')"
    by (simp add: recognized_def ServerMessageType_def typed_def typeFrame_def)
  have n2: "\<not> recognized Unparsable"
    by (simp add: recognized_def ServerMessageType_def typed_def)
  have n3: "\<not> recognized (Parsed (JObj [(''message'', JStr ''no type'')]))"
    by (simp add: recognized_def ServerMessageType_def typed_def)
  have n4: "\<not> recognized (Parsed JNull)"
    by (simp add: recognized_def ServerMessageType_def typed_def)
  have r: "connectionStatus ready_session = Ready"
    by (simp add: ready_session_eq)
  from n1 r unrecognized_frame_ignored[OF n1, of ready_session]
    unrecognized_frame_ignored[OF n2, of ready_session]
    unrecognized_frame_ignored[OF n3, of ready_session]
    unrecognized_frame_ignored[OF n4, of ready_session]
  show ?thesis by simp
qed

section \<open>Clearing of the error message\<close>

text \<open>
  Claim C9, as the code has it. An inbound \<^verbatim>\<open>ready\<close> frame and an inbound
  \<^verbatim>\<open>recording_started\<close> frame each reset the stored error message to \<^verbatim>\<open>null\<close>,
  whatever it was. An inbound \<^verbatim>\<open>result\<close> frame does not: its case sets the latest
  result, the accumulation and the processing flag only, and the stored error message
  stays as it was.
\<close>

theorem error_cleared_by_ready_and_recording_started:
  "(typed ''ready'' f \<longrightarrow> error (handleMessage f s) = JNull)
   \<and> (typed ''recording_started'' f \<longrightarrow> error (handleMessage f s) = JNull)
   \<and> (typed ''result'' f \<longrightarrow> error (handleMessage f s) = error s)"
proof -
  have "error (handleMessage f s) = error s" if "typed ''result'' f"
  proof -
    from that obtain v where "f = Parsed v" by (cases f) (simp_all add: typed_def)
    with that show ?thesis by (simp add: handleMessage_result)
  qed
  then show ?thesis
    by (simp add: handleMessage_ready handleMessage_recording_started)
qed

theorem error_cleared_by_ready_and_recording_started_witness:
  "typed ''ready'' readyFrame
   \<and> typed ''recording_started'' (typeFrame ''recording_started'')
   \<and> typed ''result'' (resultFrame ''hi'')
   \<and> error (handleMessage readyFrame (handleMessage (errorFrame ''boom'') ready_session)) = JNull
   \<and> error (handleMessage (typeFrame ''recording_started'')
        (handleMessage (errorFrame ''boom'') ready_session)) = JNull
   \<and> error (handleMessage (resultFrame ''hi'') (handleMessage (errorFrame ''boom'') ready_session))
       = error (handleMessage (errorFrame ''boom'') ready_session)"
proof -
  have t1: "typed ''ready'' readyFrame" by (simp add: typed_def readyFrame_def)
  have t2: "typed ''recording_started'' (typeFrame ''recording_started'')"
    by (simp add: typed_def typeFrame_def)
  have t3: "typed ''result'' (resultFrame ''hi'')" by (simp add: typed_def resultFrame_def)
  from t1 t2 t3
    error_cleared_by_ready_and_recording_started
      [of readyFrame "handleMessage (errorFrame ''boom'') ready_session"]
    error_cleared_by_ready_and_recording_started
      [of "typeFrame ''recording_started''" "handleMessage (errorFrame ''boom'') ready_session"]
    error_cleared_by_ready_and_recording_started
      [of "resultFrame ''hi''" "handleMessage (errorFrame ''boom'') ready_session"]
  show ?thesis by simp
qed

lemma error_session_eq:
  "handleMessage (errorFrame msg) ready_session = ready_session\<lparr>error := JStr msg\<rparr>"
  by (simp add: errorFrame_def handleMessage_dispatch ready_session_eq)

text \<open>
  The claim as stated fails on a successful result: after the server reported
  \<^verbatim>\<open>boom\<close>, a result frame arrives and the stored error message is still
  \<^verbatim>\<open>boom\<close>.
\<close>

theorem result_keeps_error:
  "typed ''result'' (resultFrame ''hi'')
   \<and> error (handleMessage (errorFrame ''boom'') ready_session) = JStr ''boom''
   \<and> error (handleMessage (resultFrame ''hi'') (handleMessage (errorFrame ''boom'') ready_session))
       = JStr ''boom''"
  by (simp add: error_session_eq typed_def resultFrame_def handleMessage_dispatch)

section \<open>The derived status\<close>

text \<open>
  Claim C7, as the code has it. The status of the component is decided by the first test
  that succeeds, in the order error, processing, result present, recording, idle, where
  the error test and the result test are truthiness tests. So whenever the error message
  is a non-empty string and processing is true, the status is the error status; but an
  error message that is the empty string counts as no error, like \<^verbatim>\<open>null\<close>.
\<close>

theorem status_precedence:
  "(ToBoolean (error s) \<longrightarrow> status s = Error)
   \<and> (\<not> ToBoolean (error s) \<and> isProcessing s \<longrightarrow> status s = Processing)
   \<and> (\<not> ToBoolean (error s) \<and> \<not> isProcessing s \<and> ToBoolean (result s)
        \<longrightarrow> status s = Success)
   \<and> (\<not> ToBoolean (error s) \<and> \<not> isProcessing s \<and> \<not> ToBoolean (result s) \<and> isRecording s
        \<longrightarrow> status s = Listening)
   \<and> (\<not> ToBoolean (error s) \<and> \<not> isProcessing s \<and> \<not> ToBoolean (result s) \<and> \<not> isRecording s
        \<longrightarrow> status s = Idle)
   \<and> (\<forall>m. error s = JStr m \<and> m \<noteq> [] \<and> isProcessing s \<longrightarrow> status s = Error)
   \<and> (error s = JStr [] \<or> error s = JNull \<longrightarrow> status s \<noteq> Error)"
  by (auto simp: status_def)

text \<open>
  The claim as stated fails when the error message is set to the empty string (the
  server's error frame carried an empty \<^verbatim>\<open>message\<close>): with processing true the status
  is the processing status.
\<close>

theorem blank_error_is_not_error_status:
  "error blank_error_session = JStr ''''
   \<and> isProcessing blank_error_session
   \<and> status blank_error_session = Processing"
proof -
  have e: "blank_error_session = ready_session\<lparr>error := JStr [], isProcessing := True\<rparr>"
    by (simp add: blank_error_session_def error_session_eq typeFrame_def handleMessage_dispatch)
  show ?thesis by (simp add: e status_def)
qed

theorem status_precedence_witness:
  "error (handleMessage (typeFrame ''processing'') (handleMessage (errorFrame ''boom'') ready_session))
     = JStr ''boom''
   \<and> isProcessing (handleMessage (typeFrame ''processing'') (handleMessage (errorFrame ''boom'') ready_session))
   \<and> status (handleMessage (typeFrame ''processing'') (handleMessage (errorFrame ''boom'') ready_session))
     = Error
   \<and> status (handleMessage (typeFrame ''processing'') ready_session) = Processing
   \<and> status (handleMessage (resultFrame ''hi'') ready_session) = Success
   \<and> status (handleMessage (typeFrame ''recording_started'') ready_session) = Listening
   \<and> status ready_session = Idle"
proof -
  let ?e = "handleMessage (typeFrame ''processing'') (handleMessage (errorFrame ''boom'') ready_session)"
  let ?p = "handleMessage (typeFrame ''processing'') ready_session"
  let ?r = "handleMessage (resultFrame ''hi'') ready_session"
  let ?l = "handleMessage (typeFrame ''recording_started'') ready_session"
  have e: "?e = ready_session\<lparr>error := JStr ''boom'', isProcessing := True\<rparr>"
    by (simp add: error_session_eq typeFrame_def handleMessage_dispatch)
  have p: "?p = ready_session\<lparr>isProcessing := True\<rparr>"
    by (simp add: typeFrame_def handleMessage_dispatch)
  have r: "error ?r = JNull \<and> \<not> isProcessing ?r \<and> ToBoolean (result ?r)"
    by (simp add: resultFrame_def handleMessage_dispatch ready_session_eq)
  have l: "error ?l = JNull \<and> \<not> isProcessing ?l \<and> result ?l = JNull \<and> isRecording ?l"
    by (simp add: typeFrame_def handleMessage_dispatch ready_session_eq)
  from status_precedence[of ?e] status_precedence[of ?p] status_precedence[of ?r]
    status_precedence[of ?l] status_precedence[of ready_session] r l
  show ?thesis unfolding e p by (simp add: ready_session_eq)
qed

section \<open>Braille dots\<close>

lemma and_pow_bit: "(n::nat) AND 2 ^ k \<noteq> 0 \<longleftrightarrow> bit n k"
  by (simp add: and_exp_eq_0_iff_not_bit)

lemma masks:
  fixes n :: nat
  shows "(n AND 0x01 \<noteq> 0) = bit n 0" "(n AND 0x02 \<noteq> 0) = bit n 1"
    "(n AND 0x04 \<noteq> 0) = bit n 2" "(n AND 0x08 \<noteq> 0) = bit n 3"
    "(n AND 0x10 \<noteq> 0) = bit n 4" "(n AND 0x20 \<noteq> 0) = bit n 5"
    "(n AND 0x40 \<noteq> 0) = bit n 6" "(n AND 0x80 \<noteq> 0) = bit n 7"
  using and_pow_bit[of n 0] and_pow_bit[of n 1] and_pow_bit[of n 2] and_pow_bit[of n 3]
    and_pow_bit[of n 4] and_pow_bit[of n 5] and_pow_bit[of n 6] and_pow_bit[of n 7]
  by simp_all

lemma upt_1_9: "[1..<9] = [1, 2, 3, 4, 5, 6, 7, 8::nat]"
  by code_simp

lemma filter_dots:
  "filter (\<lambda>d. bit (n::nat) (d - 1)) [1, 2, 3, 4, 5, 6, 7, 8]
   = (if bit n 0 then [1] else []) @ (if bit n 1 then [2] else [])
     @ (if bit n 2 then [3] else []) @ (if bit n 3 then [4] else [])
     @ (if bit n 4 then [5] else []) @ (if bit n 5 then [6] else [])
     @ (if bit n 6 then [7] else []) @ (if bit n 7 then [8] else [])"
proof -
  have "(2::nat) - 1 = 1" "(3::nat) - 1 = 2" "(4::nat) - 1 = 3" "(5::nat) - 1 = 4"
    "(6::nat) - 1 = 5" "(7::nat) - 1 = 6" "(8::nat) - 1 = 7" by simp_all
  then show ?thesis by (simp del: bit_0 bit_numeral_simps)
qed

lemma getBrailleDots_in_range:
  assumes "0x2800 \<le> unat c" and "unat c \<le> 0x28ff"
  shows "getBrailleDots (c # cs) = filter (\<lambda>d. bit (unat c - 0x2800) (d - 1)) [1..<9]"
proof -
  have "getBrailleDots (c # cs)
      = (if bit (unat c - 0x2800) 0 then [1] else []) @ (if bit (unat c - 0x2800) 1 then [2] else [])
     @ (if bit (unat c - 0x2800) 2 then [3] else []) @ (if bit (unat c - 0x2800) 3 then [4] else [])
     @ (if bit (unat c - 0x2800) 4 then [5] else []) @ (if bit (unat c - 0x2800) 5 then [6] else [])
     @ (if bit (unat c - 0x2800) 6 then [7] else []) @ (if bit (unat c - 0x2800) 7 then [8] else [])"
    using assms unfolding getBrailleDots_def charCodeAt0_def Let_def masks
    by (simp del: bit_0 bit_numeral_simps)
  then show ?thesis unfolding upt_1_9 filter_dots .
qed


text \<open>
  Claim C10. On a one-character string whose code unit lies outside U+2800..U+28FF the
  function returns the empty list. On the code unit \<open>0x2800 + off\<close> with
  \<open>off \<le> 0xff\<close> it returns the numbers \<open>d\<close> from 1 to 8 whose bit \<open>d - 1\<close> is set in
  \<open>off\<close>: exactly those, each once, in strictly increasing order. The function is
  defined on every string and reads no state.
\<close>

theorem getBrailleDots_dots:
  "(unat c < 0x2800 \<or> 0x28ff < unat c \<longrightarrow> getBrailleDots [c] = [])
   \<and> (\<forall>off \<le> 0xff. unat c = 0x2800 + off \<longrightarrow>
         getBrailleDots [c] = filter (\<lambda>d. bit off (d - 1)) [1..<9]
       \<and> set (getBrailleDots [c]) = {d. 1 \<le> d \<and> d \<le> 8 \<and> bit off (d - 1)}
       \<and> sorted_wrt (<) (getBrailleDots [c]))"
proof -
  have out: "getBrailleDots [c] = []" if "unat c < 0x2800 \<or> 0x28ff < unat c"
    using that by (auto simp: getBrailleDots_def charCodeAt0_def)
  have inr: "getBrailleDots [c] = filter (\<lambda>d. bit off (d - 1)) [1..<9]
       \<and> set (getBrailleDots [c]) = {d. 1 \<le> d \<and> d \<le> 8 \<and> bit off (d - 1)}
       \<and> sorted_wrt (<) (getBrailleDots [c])"
    if "off \<le> 0xff" and "unat c = 0x2800 + off" for off
  proof -
    from that have "0x2800 \<le> unat c" "unat c \<le> 0x28ff" "unat c - 0x2800 = off"
      by simp_all
    with getBrailleDots_in_range[of c "[]"]
    have eq: "getBrailleDots [c] = filter (\<lambda>d. bit off (d - 1)) [1..<9]" by simp
    have "set (filter (\<lambda>d. bit off (d - 1)) [1..<9]) = {d. 1 \<le> d \<and> d \<le> 8 \<and> bit off (d - 1)}"
      by auto
    moreover have "sorted_wrt (<) (filter (\<lambda>d. bit off (d - 1)) [1..<9])"
      by (rule sorted_wrt_filter) (rule sorted_wrt_upt)
    ultimately show ?thesis unfolding eq by simp
  qed
  from out inr show ?thesis by blast
qed

theorem getBrailleDots_dots_witness:
  "unat (0x2813 :: 16 word) = 0x2800 + 0x13
   \<and> getBrailleDots [0x2813] = [1, 2, 5]
   \<and> unat (0x41 :: 16 word) < 0x2800
   \<and> getBrailleDots [0x41] = []
   \<and> getBrailleDots [0x28ff] = [1, 2, 3, 4, 5, 6, 7, 8]"
proof -
  have a: "unat (0x2813 :: 16 word) = 0x2800 + 0x13" by simp
  have b: "unat (0x28ff :: 16 word) = 0x2800 + 0xff" by simp
  have c: "unat (0x41 :: 16 word) < 0x2800" by simp
  have f1: "filter (\<lambda>d. bit (0x13::nat) (d - 1)) [1..<9] = [1, 2, 5]"
    by code_simp
  have f2: "filter (\<lambda>d. bit (0xff::nat) (d - 1)) [1..<9] = [1, 2, 3, 4, 5, 6, 7, 8]"
    by code_simp
  from getBrailleDots_dots[of "0x2813"] a f1
  have r1: "getBrailleDots [0x2813] = [1, 2, 5]" by simp
  from getBrailleDots_dots[of "0x28ff"] b f2
  have r2: "getBrailleDots [0x28ff] = [1, 2, 3, 4, 5, 6, 7, 8]" by simp
  from getBrailleDots_dots[of "0x41"] c
  have r3: "getBrailleDots [0x41] = []" by simp
  from a c r1 r2 r3 show ?thesis by simp
qed

section \<open>Sending\<close>

text \<open>
  Claim C4, as the code has it. The guard of \<^verbatim>\<open>updateConfig\<close> is on the transport, not
  on the connection status. When the hook holds no socket, or a socket that is not open,
  the call stores the error message \<^verbatim>\<open>Not connected to server\<close> and sends nothing.
  When the socket it holds is open, the call sends exactly one \<^verbatim>\<open>config\<close> message on
  it and changes nothing else, whatever the connection status is.
\<close>

theorem updateConfig_sends_iff_open:
  "(wsOpen s = None \<longrightarrow>
      updateConfig config s = s\<lparr>error := JStr ''Not connected to server''\<rparr>
      \<and> sent (updateConfig config s) = sent s)
   \<and> (\<forall>i. wsOpen s = Some i \<longrightarrow>
      updateConfig config s
        = s\<lparr>sent := sent s @ [(i, Text (JObj [(''type'', JStr ''config''), (''config'', config)]))]\<rparr>
      \<and> error (updateConfig config s) = error s)"
  by (simp add: updateConfig_def ws_send_def)

text \<open>
  The claim as stated fails between the open event and the server's ready frame: the
  connection status is \<^verbatim>\<open>connected\<close>, not \<^verbatim>\<open>ready\<close>, and the call sends the
  \<^verbatim>\<open>config\<close> message without reporting an error.
\<close>

theorem updateConfig_sends_when_connected:
  "connectionStatus connected_session = Connected
   \<and> sent connected_session = []
   \<and> sent (updateConfig someConfig connected_session)
       = [(0, Text (JObj [(''type'', JStr ''config''), (''config'', someConfig)]))]
   \<and> error (updateConfig someConfig connected_session) = JNull"
  by (simp add: connected_session_eq updateConfig_def ws_send_def wsOpen_def readyStateOf_def)

theorem updateConfig_sends_iff_open_witness:
  "wsOpen (initial True) = None
   \<and> error (updateConfig someConfig (initial True)) = JStr ''Not connected to server''
   \<and> sent (updateConfig someConfig (initial True)) = []
   \<and> wsOpen ready_session = Some 0
   \<and> sent (updateConfig someConfig ready_session)
       = [(0, Text (JObj [(''type'', JStr ''config''), (''config'', someConfig)]))]
   \<and> error (updateConfig someConfig ready_session) = JNull"
proof -
  have a: "wsOpen (initial True) = None" by (simp add: wsOpen_def initial_def)
  have b: "wsOpen ready_session = Some 0"
    by (simp add: wsOpen_def readyStateOf_def ready_session_eq)
  have c: "sent (initial True) = []" by (simp add: initial_def)
  have d: "sent ready_session = [] \<and> error ready_session = JNull"
    by (simp add: ready_session_eq)
  from updateConfig_sends_iff_open[of "initial True" someConfig]
    updateConfig_sends_iff_open[of ready_session someConfig] a b c d
  show ?thesis by simp
qed

text \<open>
  Claim C5, as the code has it. \<^verbatim>\<open>startRecording\<close> requires an open transport, not the
  ready status. When the hook holds no open socket, the call stores the error message
  \<^verbatim>\<open>Not connected to server\<close> and sends nothing (and clears nothing). When the socket
  it holds is open, the call clears the latest result and the status snapshot and sends
  exactly one \<^verbatim>\<open>start_recording\<close> message, whatever the connection status is.
\<close>

theorem startRecording_sends_iff_open:
  "(wsOpen s = None \<longrightarrow>
      startRecording s = s\<lparr>error := JStr ''Not connected to server''\<rparr>
      \<and> sent (startRecording s) = sent s)
   \<and> (\<forall>i. wsOpen s = Some i \<longrightarrow>
      startRecording s
        = s\<lparr>result := JNull, statusInfo := JNull,
            sent := sent s @ [(i, Text (JObj [(''type'', JStr ''start_recording'')]))]\<rparr>
      \<and> error (startRecording s) = error s)"
  by (simp add: startRecording_def ws_send_def)

text \<open>
  The claim as stated fails in the status \<^verbatim>\<open>connected\<close>: the socket is open, the
  ready frame has not arrived, and the call sends \<^verbatim>\<open>start_recording\<close> without
  reporting an error.
\<close>

theorem startRecording_sends_when_connected:
  "connectionStatus connected_session = Connected
   \<and> sent connected_session = []
   \<and> sent (startRecording connected_session)
       = [(0, Text (JObj [(''type'', JStr ''start_recording'')]))]
   \<and> error (startRecording connected_session) = JNull"
  by (simp add: connected_session_eq startRecording_def ws_send_def wsOpen_def readyStateOf_def)

theorem startRecording_sends_iff_open_witness:
  "wsOpen (initial True) = None
   \<and> error (startRecording (initial True)) = JStr ''Not connected to server''
   \<and> sent (startRecording (initial True)) = []
   \<and> wsOpen (handleMessage (resultFrame ''old'') ready_session) = Some 0
   \<and> result (handleMessage (resultFrame ''old'') ready_session) \<noteq> JNull
   \<and> result (startRecording (handleMessage (resultFrame ''old'') ready_session)) = JNull
   \<and> statusInfo (startRecording (handleMessage (resultFrame ''old'') ready_session)) = JNull
   \<and> sent (startRecording (handleMessage (resultFrame ''old'') ready_session))
       = [(0, Text (JObj [(''type'', JStr ''start_recording'')]))]"
proof -
  let ?s = "handleMessage (resultFrame ''old'') ready_session"
  have a: "wsOpen (initial True) = None" by (simp add: wsOpen_def initial_def)
  have c: "sent (initial True) = []" by (simp add: initial_def)
  have b: "wsOpen ?s = Some 0 \<and> sent ?s = [] \<and> result ?s \<noteq> JNull"
    by (simp add: wsOpen_def readyStateOf_def ready_session_eq resultFrame_def
        handleMessage_dispatch)
  from startRecording_sends_iff_open[of "initial True"]
    startRecording_sends_iff_open[of ?s] a b c
  show ?thesis by simp
qed

section \<open>Closing and reconnecting\<close>

lemma handleClose_below:
  "reconnectAttemptsRef s < 5 \<Longrightarrow>
   handleClose s =
     s\<lparr>connectionStatus := Disconnected, isRecording := False, isSpeaking := False,
       isProcessing := False,
       timers := timers s @ [(backoff (reconnectAttemptsRef s), Pending)],
       reconnectTimeoutRef := Some (Suc (length (timers s)))\<rparr>"
  by (simp add: handleClose_def setTimeout_def backoff_def Let_def)

lemma handleClose_ceiling:
  "\<not> reconnectAttemptsRef s < 5 \<Longrightarrow>
   handleClose s =
     s\<lparr>connectionStatus := Disconnected, isRecording := False, isSpeaking := False,
       isProcessing := False,
       error := JStr ''Failed to reconnect after multiple attempts''\<rparr>"
  by (simp add: handleClose_def Let_def)

lemma closable_iff: "closable s i \<longleftrightarrow> i < length (sockets s) \<and> sockets s ! i \<noteq> CLOSED"
  by (simp add: closable_def readyStateOf_def split: readyState.splits)

lemma socket_close_below:
  "closable s i \<Longrightarrow> reconnectAttemptsRef s < 5 \<Longrightarrow>
   socket_close i s =
     s\<lparr>sockets := (sockets s)[i := CLOSED],
       connectionStatus := Disconnected, isRecording := False, isSpeaking := False,
       isProcessing := False,
       timers := timers s @ [(backoff (reconnectAttemptsRef s), Pending)],
       reconnectTimeoutRef := Some (Suc (length (timers s)))\<rparr>"
  by (simp add: socket_close_def handleClose_below)

lemma socket_close_ceiling:
  "closable s i \<Longrightarrow> \<not> reconnectAttemptsRef s < 5 \<Longrightarrow>
   socket_close i s =
     s\<lparr>sockets := (sockets s)[i := CLOSED],
       connectionStatus := Disconnected, isRecording := False, isSpeaking := False,
       isProcessing := False,
       error := JStr ''Failed to reconnect after multiple attempts''\<rparr>"
  by (simp add: socket_close_def handleClose_ceiling)

lemma fail_round_eq:
  assumes "wsRef s = Some i" and "closable s i" and "reconnectAttemptsRef s < 5"
    and "urlAccepted s"
  shows "fail_round s =
     s\<lparr>sockets := (sockets s)[i := CLOSED] @ [CONNECTING],
       timers := timers s @ [(backoff (reconnectAttemptsRef s), Fired)],
       wsRef := Some (length (sockets s)),
       reconnectTimeoutRef := Some (Suc (length (timers s))),
       reconnectAttemptsRef := Suc (reconnectAttemptsRef s),
       connectionStatus := Connecting, error := JNull,
       isRecording := False, isSpeaking := False, isProcessing := False\<rparr>"
proof -
  from assms(2) have i: "i < length (sockets s)" by (simp add: closable_iff)
  show ?thesis
    using assms(1,3,4) i
    by (simp add: fail_round_def socket_close_below[OF assms(2,3)] timer_fire_def
        timerPending_def reconnect_def connect_def wsOpen_def readyStateOf_def Let_def)
qed

lemma fail_round_step:
  assumes "wsRef s = Some i" and "closable s i" and "reconnectAttemptsRef s = n" and "n < 5"
    and "urlAccepted s"
  shows "timers (fail_round s) = timers s @ [(backoff n, Fired)]
       \<and> reconnectAttemptsRef (fail_round s) = Suc n
       \<and> wsRef (fail_round s) = Some (length (sockets s))
       \<and> closable (fail_round s) (length (sockets s))
       \<and> length (sockets (fail_round s)) = Suc (length (sockets s))
       \<and> urlAccepted (fail_round s)"
proof -
  from assms have lt: "reconnectAttemptsRef s < 5" by simp
  show ?thesis
    unfolding fail_round_eq[OF assms(1,2) lt assms(5)]
    using assms(3,5) by (simp add: closable_iff nth_append)
qed

lemma backoff_values:
  "backoff 0 = 1000" "backoff 1 = 2000" "backoff 2 = 4000" "backoff 3 = 8000"
  "backoff 4 = 10000" "backoff (Suc 0) = 2000"
  by (simp_all add: backoff_def)

lemma five_rounds:
  assumes "wsRef s = Some i" and "closable s i" and "reconnectAttemptsRef s = 0"
    and "urlAccepted s"
  shows "timers (fail_round (fail_round (fail_round (fail_round (fail_round s)))))
           = timers s @ [(1000, Fired), (2000, Fired), (4000, Fired), (8000, Fired), (10000, Fired)]
       \<and> reconnectAttemptsRef (fail_round (fail_round (fail_round (fail_round (fail_round s))))) = 5
       \<and> wsRef (fail_round (fail_round (fail_round (fail_round (fail_round s)))))
           = Some (length (sockets s) + 4)
       \<and> closable (fail_round (fail_round (fail_round (fail_round (fail_round s)))))
           (length (sockets s) + 4)"
proof -
  let ?k = "length (sockets s)"
  let ?s1 = "fail_round s"
  let ?s2 = "fail_round ?s1"
  let ?s3 = "fail_round ?s2"
  let ?s4 = "fail_round ?s3"
  let ?s5 = "fail_round ?s4"
  have r1: "timers ?s1 = timers s @ [(backoff 0, Fired)] \<and> reconnectAttemptsRef ?s1 = Suc 0
      \<and> wsRef ?s1 = Some ?k \<and> closable ?s1 ?k \<and> length (sockets ?s1) = Suc ?k
      \<and> urlAccepted ?s1"
    using fail_round_step[OF assms(1,2,3) _ assms(4)] by simp
  have r2: "timers ?s2 = timers ?s1 @ [(backoff 1, Fired)] \<and> reconnectAttemptsRef ?s2 = Suc 1
      \<and> wsRef ?s2 = Some (Suc ?k) \<and> closable ?s2 (Suc ?k) \<and> length (sockets ?s2) = Suc (Suc ?k)
      \<and> urlAccepted ?s2"
    using fail_round_step[of ?s1 ?k 1] r1 by simp
  have r3: "timers ?s3 = timers ?s2 @ [(backoff 2, Fired)] \<and> reconnectAttemptsRef ?s3 = Suc 2
      \<and> wsRef ?s3 = Some (Suc (Suc ?k)) \<and> closable ?s3 (Suc (Suc ?k))
      \<and> length (sockets ?s3) = Suc (Suc (Suc ?k)) \<and> urlAccepted ?s3"
    using fail_round_step[of ?s2 "Suc ?k" 2] r2 by simp
  have r4: "timers ?s4 = timers ?s3 @ [(backoff 3, Fired)] \<and> reconnectAttemptsRef ?s4 = Suc 3
      \<and> wsRef ?s4 = Some (Suc (Suc (Suc ?k))) \<and> closable ?s4 (Suc (Suc (Suc ?k)))
      \<and> length (sockets ?s4) = Suc (Suc (Suc (Suc ?k))) \<and> urlAccepted ?s4"
    using fail_round_step[of ?s3 "Suc (Suc ?k)" 3] r3 by simp
  have r5: "timers ?s5 = timers ?s4 @ [(backoff 4, Fired)] \<and> reconnectAttemptsRef ?s5 = Suc 4
      \<and> wsRef ?s5 = Some (Suc (Suc (Suc (Suc ?k)))) \<and> closable ?s5 (Suc (Suc (Suc (Suc ?k))))
      \<and> length (sockets ?s5) = Suc (Suc (Suc (Suc (Suc ?k)))) \<and> urlAccepted ?s5"
    using fail_round_step[of ?s4 "Suc (Suc (Suc ?k))" 4] r4 by simp
  have k4: "?k + 4 = Suc (Suc (Suc (Suc ?k)))" by simp
  from r1 r2 r3 r4 r5 show ?thesis unfolding k4 by (simp add: backoff_values)
qed

section \<open>Reconnection with backoff\<close>

text \<open>
  Claim C2. When a socket closes (its close event arrives) while the attempt counter is
  \<open>n < 5\<close>, a reconnection is scheduled with a delay of exactly
  \<open>min (1000 * 2 ^ n) 10000\<close> milliseconds. Over five failed attempts in a row, starting
  with the counter at 0, the delays of the timeouts created are 1000, 2000, 4000, 8000
  and 10000, and the counter is then 5. A close with the counter at 5 creates no timeout
  and stores the error message \<^verbatim>\<open>Failed to reconnect after multiple attempts\<close>.
\<close>

theorem reconnection_backoff:
  "(n < 5 \<and> closable s i \<and> reconnectAttemptsRef s = n \<longrightarrow>
        timers (socket_close i s) = timers s @ [(min (1000 * 2 ^ n) 10000, Pending)]
      \<and> reconnectTimeoutRef (socket_close i s) = Some (Suc (length (timers s)))
      \<and> timerPending (socket_close i s) (Suc (length (timers s))))
   \<and> (wsRef s = Some i \<and> closable s i \<and> reconnectAttemptsRef s = 0 \<and> urlAccepted s \<longrightarrow>
        timers (fail_round (fail_round (fail_round (fail_round (fail_round s)))))
          = timers s @ [(1000, Fired), (2000, Fired), (4000, Fired), (8000, Fired), (10000, Fired)]
      \<and> reconnectAttemptsRef (fail_round (fail_round (fail_round (fail_round (fail_round s))))) = 5
      \<and> wsRef (fail_round (fail_round (fail_round (fail_round (fail_round s)))))
          = Some (length (sockets s) + 4)
      \<and> timers (socket_close (length (sockets s) + 4)
            (fail_round (fail_round (fail_round (fail_round (fail_round s))))))
          = timers (fail_round (fail_round (fail_round (fail_round (fail_round s)))))
      \<and> error (socket_close (length (sockets s) + 4)
            (fail_round (fail_round (fail_round (fail_round (fail_round s))))))
          = JStr ''Failed to reconnect after multiple attempts'')
   \<and> (closable s i \<and> reconnectAttemptsRef s = 5 \<longrightarrow>
        timers (socket_close i s) = timers s
      \<and> reconnectTimeoutRef (socket_close i s) = reconnectTimeoutRef s
      \<and> error (socket_close i s) = JStr ''Failed to reconnect after multiple attempts'')"
proof -
  have below: "timers (socket_close i s) = timers s @ [(min (1000 * 2 ^ n) 10000, Pending)]
      \<and> reconnectTimeoutRef (socket_close i s) = Some (Suc (length (timers s)))
      \<and> timerPending (socket_close i s) (Suc (length (timers s)))"
    if "n < 5" and "closable s i" and "reconnectAttemptsRef s = n"
  proof -
    from that have "reconnectAttemptsRef s < 5" by simp
    from socket_close_below[OF that(2) this] that(3)
    show ?thesis by (simp add: backoff_def timerPending_def)
  qed
  have ceiling: "timers (socket_close j s') = timers s'
      \<and> reconnectTimeoutRef (socket_close j s') = reconnectTimeoutRef s'
      \<and> error (socket_close j s') = JStr ''Failed to reconnect after multiple attempts''"
    if "closable s' j" and "reconnectAttemptsRef s' = 5" for s' j
  proof -
    from that have "\<not> reconnectAttemptsRef s' < 5" by simp
    from socket_close_ceiling[OF that(1) this] show ?thesis by simp
  qed
  have rounds: "timers (fail_round (fail_round (fail_round (fail_round (fail_round s)))))
          = timers s @ [(1000, Fired), (2000, Fired), (4000, Fired), (8000, Fired), (10000, Fired)]
      \<and> reconnectAttemptsRef (fail_round (fail_round (fail_round (fail_round (fail_round s))))) = 5
      \<and> wsRef (fail_round (fail_round (fail_round (fail_round (fail_round s)))))
          = Some (length (sockets s) + 4)
      \<and> timers (socket_close (length (sockets s) + 4)
            (fail_round (fail_round (fail_round (fail_round (fail_round s))))))
          = timers (fail_round (fail_round (fail_round (fail_round (fail_round s)))))
      \<and> error (socket_close (length (sockets s) + 4)
            (fail_round (fail_round (fail_round (fail_round (fail_round s))))))
          = JStr ''Failed to reconnect after multiple attempts''"
    if "wsRef s = Some i" and "closable s i" and "reconnectAttemptsRef s = 0" and "urlAccepted s"
  proof -
    note five = five_rounds[OF that]
    from five have "closable (fail_round (fail_round (fail_round (fail_round (fail_round s)))))
        (length (sockets s) + 4)"
      and "reconnectAttemptsRef (fail_round (fail_round (fail_round (fail_round (fail_round s))))) = 5"
      by simp_all
    from ceiling[OF this] five show ?thesis by simp
  qed
  from below ceiling[of s i] rounds show ?thesis by blast
qed

theorem reconnection_backoff_witness:
  "closable ready_session 0
   \<and> reconnectAttemptsRef ready_session = 0
   \<and> wsRef ready_session = Some 0
   \<and> urlAccepted ready_session
   \<and> timers (socket_close 0 ready_session) = [(1000, Pending)]
   \<and> timers (fail_round (fail_round (fail_round (fail_round (fail_round ready_session)))))
       = [(1000, Fired), (2000, Fired), (4000, Fired), (8000, Fired), (10000, Fired)]
   \<and> reconnectAttemptsRef
        (fail_round (fail_round (fail_round (fail_round (fail_round ready_session))))) = 5
   \<and> timers exhausted_session
       = [(1000, Fired), (2000, Fired), (4000, Fired), (8000, Fired), (10000, Fired)]
   \<and> error exhausted_session = JStr ''Failed to reconnect after multiple attempts''"
proof -
  have h: "closable ready_session 0 \<and> reconnectAttemptsRef ready_session = 0
      \<and> wsRef ready_session = Some 0 \<and> urlAccepted ready_session
      \<and> timers ready_session = [] \<and> length (sockets ready_session) = 1"
    by (simp add: ready_session_eq closable_iff)
  from reconnection_backoff[of 0 ready_session 0] h
  show ?thesis by (simp add: exhausted_session_def)
qed

lemma exhausted_session_eq:
  "exhausted_session =
     \<lparr> urlAccepted = True, sockets = [CLOSED, CLOSED, CLOSED, CLOSED, CLOSED, CLOSED],
       sent = [],
       timers = [(1000, Fired), (2000, Fired), (4000, Fired), (8000, Fired), (10000, Fired)],
       wsRef = Some 5, reconnectTimeoutRef = Some 5, reconnectAttemptsRef = 5,
       connectionStatus = Disconnected,
       error = JStr ''Failed to reconnect after multiple attempts'',
       isRecording = False, isSpeaking = False, isProcessing = False,
       result = JNull, accumulatedResults = [], statusInfo = JNull \<rparr>"
proof -
  let ?s1 = "fail_round ready_session"
  let ?s2 = "fail_round ?s1"
  let ?s3 = "fail_round ?s2"
  let ?s4 = "fail_round ?s3"
  let ?s5 = "fail_round ?s4"
  have s1: "?s1 =
     \<lparr> urlAccepted = True, sockets = [CLOSED, CONNECTING], sent = [],
       timers = [(1000, Fired)],
       wsRef = Some 1, reconnectTimeoutRef = Some 1, reconnectAttemptsRef = 1,
       connectionStatus = Connecting, error = JNull,
       isRecording = False, isSpeaking = False, isProcessing = False,
       result = JNull, accumulatedResults = [], statusInfo = JNull \<rparr>"
    using fail_round_eq[of ready_session 0]
    by (simp add: ready_session_eq closable_iff backoff_values)
  have s2: "?s2 =
     \<lparr> urlAccepted = True, sockets = [CLOSED, CLOSED, CONNECTING], sent = [],
       timers = [(1000, Fired), (2000, Fired)],
       wsRef = Some 2, reconnectTimeoutRef = Some 2, reconnectAttemptsRef = 2,
       connectionStatus = Connecting, error = JNull,
       isRecording = False, isSpeaking = False, isProcessing = False,
       result = JNull, accumulatedResults = [], statusInfo = JNull \<rparr>"
    using fail_round_eq[of ?s1 1] unfolding s1
    by (simp add: closable_iff backoff_values)
  have s3: "?s3 =
     \<lparr> urlAccepted = True, sockets = [CLOSED, CLOSED, CLOSED, CONNECTING], sent = [],
       timers = [(1000, Fired), (2000, Fired), (4000, Fired)],
       wsRef = Some 3, reconnectTimeoutRef = Some 3, reconnectAttemptsRef = 3,
       connectionStatus = Connecting, error = JNull,
       isRecording = False, isSpeaking = False, isProcessing = False,
       result = JNull, accumulatedResults = [], statusInfo = JNull \<rparr>"
    using fail_round_eq[of ?s2 2] unfolding s2
    by (simp add: closable_iff backoff_values)
  have s4: "?s4 =
     \<lparr> urlAccepted = True, sockets = [CLOSED, CLOSED, CLOSED, CLOSED, CONNECTING], sent = [],
       timers = [(1000, Fired), (2000, Fired), (4000, Fired), (8000, Fired)],
       wsRef = Some 4, reconnectTimeoutRef = Some 4, reconnectAttemptsRef = 4,
       connectionStatus = Connecting, error = JNull,
       isRecording = False, isSpeaking = False, isProcessing = False,
       result = JNull, accumulatedResults = [], statusInfo = JNull \<rparr>"
    using fail_round_eq[of ?s3 3] unfolding s3
    by (simp add: closable_iff backoff_values)
  have s5: "?s5 =
     \<lparr> urlAccepted = True, sockets = [CLOSED, CLOSED, CLOSED, CLOSED, CLOSED, CONNECTING],
       sent = [],
       timers = [(1000, Fired), (2000, Fired), (4000, Fired), (8000, Fired), (10000, Fired)],
       wsRef = Some 5, reconnectTimeoutRef = Some 5, reconnectAttemptsRef = 5,
       connectionStatus = Connecting, error = JNull,
       isRecording = False, isSpeaking = False, isProcessing = False,
       result = JNull, accumulatedResults = [], statusInfo = JNull \<rparr>"
    using fail_round_eq[of ?s4 4] unfolding s4
    by (simp add: closable_iff backoff_values)
  show ?thesis
    unfolding exhausted_session_def s5
    using socket_close_ceiling[of "?s5" 5] unfolding s5
    by (simp add: closable_iff)
qed


section \<open>Connecting again after the ceiling\<close>

lemma connect_new:
  "wsOpen s = None \<Longrightarrow> urlAccepted s \<Longrightarrow>
   connect s = s\<lparr>connectionStatus := Connecting, error := JNull,
                 sockets := sockets s @ [CONNECTING], wsRef := Some (length (sockets s))\<rparr>"
  by (simp add: connect_def)

lemma connect_refused:
  "wsOpen s = None \<Longrightarrow> \<not> urlAccepted s \<Longrightarrow>
   connect s = s\<lparr>connectionStatus := ErrorStatus,
                 error := JStr ''Failed to establish connection''\<rparr>"
  by (simp add: connect_def)

lemma connect_open: "wsOpen s = Some i \<Longrightarrow> connect s = s"
  by (simp add: connect_def)

lemma connect_keeps_counter: "reconnectAttemptsRef (connect s) = reconnectAttemptsRef s"
  by (simp add: connect_def Let_def split: option.splits)

lemma connect_keeps_timers: "timers (connect s) = timers s"
  by (simp add: connect_def Let_def split: option.splits)

subsection \<open>Who writes the attempt counter\<close>

lemma handleMessage_other_counter:
  assumes "\<not> typed ''ready'' f"
  shows "reconnectAttemptsRef (handleMessage f s) = reconnectAttemptsRef s"
proof (cases f)
  case Unparsable
  then show ?thesis by (simp add: handleMessage_def)
next
  case (Parsed v)
  show ?thesis
  proof (cases "getProp v ''type''")
    case None
    with Parsed show ?thesis by (simp add: handleMessage_def)
  next
    case (Some t)
    from assms Parsed Some have "t \<noteq> JStr ''ready''" by (simp add: typed_def)
    with Parsed Some show ?thesis by (simp add: handleMessage_dispatch)
  qed
qed

lemma handleMessage_keeps_timers: "timers (handleMessage f s) = timers s"
proof (cases f)
  case Unparsable
  then show ?thesis by (simp add: handleMessage_def)
next
  case (Parsed v)
  then show ?thesis
    by (cases "getProp v ''type''") (simp_all add: handleMessage_def handleMessage_dispatch)
qed

lemma handleClose_keeps_counter:
  "reconnectAttemptsRef (handleClose s) = reconnectAttemptsRef s"
  by (simp add: handleClose_def setTimeout_def Let_def)

lemma disconnect_keeps_counter:
  "reconnectAttemptsRef (disconnect s) = reconnectAttemptsRef s"
  by (simp add: disconnect_def Let_def clearTimeout_def ws_close_def split: option.splits)

lemma disconnect_timers_length: "length (timers (disconnect s)) = length (timers s)"
  by (simp add: disconnect_def Let_def clearTimeout_def ws_close_def split: option.splits)

lemma perform_counter:
  "reconnectAttemptsRef (perform a s) =
     (if delivers_ready a s then 0
      else if fires_timer a s then Suc (reconnectAttemptsRef s)
      else reconnectAttemptsRef s)"
proof (cases a)
  case Connect
  then show ?thesis by (simp add: connect_keeps_counter)
next
  case Disconnect
  then show ?thesis by (simp add: disconnect_keeps_counter)
next
  case StartRecording
  then show ?thesis by (simp add: startRecording_def ws_send_def split: option.splits)
next
  case StopRecording
  then show ?thesis by (simp add: stopRecording_def ws_send_def split: option.splits)
next
  case (SendAudioChunk d)
  then show ?thesis by (simp add: sendAudioChunk_def ws_send_def split: option.splits)
next
  case (UpdateConfig c)
  then show ?thesis by (simp add: updateConfig_def ws_send_def split: option.splits)
next
  case (SocketOpen i)
  then show ?thesis by (simp add: socket_open_def onopen_def)
next
  case (SocketMessage i f)
  show ?thesis
  proof (cases "typed ''ready'' f")
    case True
    with SocketMessage show ?thesis
      by (simp add: socket_message_def handleMessage_ready)
  next
    case False
    with SocketMessage show ?thesis
      by (simp add: socket_message_def handleMessage_other_counter)
  qed
next
  case (SocketClose i)
  then show ?thesis by (simp add: socket_close_def handleClose_keeps_counter)
next
  case (SocketFail i)
  then show ?thesis
    by (simp add: socket_fail_def handleClose_keeps_counter handleError_def)
next
  case (TimerFire t)
  then show ?thesis
    by (simp add: timer_fire_def reconnect_def connect_keeps_counter)
qed

lemma handleClose_ceiling_timers:
  "5 \<le> reconnectAttemptsRef s \<Longrightarrow> timers (handleClose s) = timers s"
  by (simp add: handleClose_def Let_def)

lemma perform_ceiling_timers:
  assumes "5 \<le> reconnectAttemptsRef s"
  shows "length (timers (perform a s)) = length (timers s)"
proof (cases a)
  case Connect
  then show ?thesis by (simp add: connect_keeps_timers)
next
  case Disconnect
  then show ?thesis by (simp add: disconnect_timers_length)
next
  case StartRecording
  then show ?thesis by (simp add: startRecording_def ws_send_def split: option.splits)
next
  case StopRecording
  then show ?thesis by (simp add: stopRecording_def ws_send_def split: option.splits)
next
  case (SendAudioChunk d)
  then show ?thesis by (simp add: sendAudioChunk_def ws_send_def split: option.splits)
next
  case (UpdateConfig c)
  then show ?thesis by (simp add: updateConfig_def ws_send_def split: option.splits)
next
  case (SocketOpen i)
  then show ?thesis by (simp add: socket_open_def onopen_def)
next
  case (SocketMessage i f)
  then show ?thesis by (simp add: socket_message_def handleMessage_keeps_timers)
next
  case (SocketClose i)
  with assms show ?thesis by (simp add: socket_close_def handleClose_ceiling_timers)
next
  case (SocketFail i)
  with assms show ?thesis
    by (simp add: socket_fail_def handleClose_ceiling_timers handleError_def)
next
  case (TimerFire t)
  then show ?thesis
    by (simp add: timer_fire_def reconnect_def connect_keeps_timers)
qed

lemma run_Cons: "run (a # acts) s = run acts (perform a s)"
  by (simp add: run_def)

lemma run_below_ready:
  "5 \<le> reconnectAttemptsRef s \<Longrightarrow> \<forall>a \<in> set acts. \<not> is_ready_message a \<Longrightarrow>
   5 \<le> reconnectAttemptsRef (run acts s) \<and> length (timers (run acts s)) = length (timers s)"
proof (induction acts arbitrary: s)
  case Nil
  then show ?case by (simp add: run_def)
next
  case (Cons a acts)
  from Cons.prems have nr: "\<not> is_ready_message a" by simp
  have "\<not> delivers_ready a s" using nr by (cases a) simp_all
  then have c: "5 \<le> reconnectAttemptsRef (perform a s)"
    using Cons.prems(1) by (simp add: perform_counter)
  have t: "length (timers (perform a s)) = length (timers s)"
    by (rule perform_ceiling_timers) (rule Cons.prems(1))
  from Cons.IH[OF c] Cons.prems(2) t show ?case by (simp add: run_Cons)
qed


lemma handleMessage_keeps_sockets: "sockets (handleMessage f s) = sockets s"
proof (cases f)
  case Unparsable
  then show ?thesis by (simp add: handleMessage_def)
next
  case (Parsed v)
  then show ?thesis
    by (cases "getProp v ''type''") (simp_all add: handleMessage_def handleMessage_dispatch)
qed

lemma close_at_ceiling:
  assumes "closable s i" and "5 \<le> reconnectAttemptsRef s"
  shows "timers (socket_close i s) = timers s
       \<and> error (socket_close i s) = JStr ''Failed to reconnect after multiple attempts''"
proof -
  from assms(2) have "\<not> reconnectAttemptsRef s < 5" by simp
  from socket_close_ceiling[OF assms(1) this] show ?thesis by simp
qed

lemma reopened:
  assumes "wsOpen s = None" and "urlAccepted s"
  shows "socket_open (new_socket s) (connect s) =
     s\<lparr>connectionStatus := Connected, error := JNull,
       sockets := sockets s @ [OPEN], wsRef := Some (length (sockets s))\<rparr>"
  unfolding connect_new[OF assms]
  by (simp add: socket_open_def readyStateOf_def onopen_def new_socket_def)

text \<open>
  Claim C3, as the code has it. \<open>connect\<close> never writes the attempt counter. With an
  open socket held it does nothing; with a url that the constructor refuses it reports an
  error and creates no socket. Called with the counter at 5 while the hook holds no open
  socket (as after the failed attempts), it starts a new connection attempt (status
  connecting, a new socket), and the counter is still 5.

  Of all calls and events, only a ready frame dispatched on an open socket sets the
  counter to 0, and only a firing timeout raises it; every other one leaves it as it is.
  So after that \<open>connect\<close>, as long as no ready frame arrives, the counter stays at 5 or
  above, no timeout is created, and every close reports the persistent error: a close
  while connecting, a close after the open event, a close after any frame that is not a
  ready frame. Once the ready frame has arrived on the new socket the counter is 0, and
  the next close schedules a reconnection after 1000 ms.
\<close>

theorem connect_after_ceiling:
  "reconnectAttemptsRef (connect s) = reconnectAttemptsRef s
   \<and> (\<forall>i. wsOpen s = Some i \<longrightarrow> connect s = s)
   \<and> (wsOpen s = None \<and> \<not> urlAccepted s \<longrightarrow>
        connect s = s\<lparr>connectionStatus := ErrorStatus,
                      error := JStr ''Failed to establish connection''\<rparr>)
   \<and> (wsOpen s = None \<and> urlAccepted s \<longrightarrow>
        connect s = s\<lparr>connectionStatus := Connecting, error := JNull,
                      sockets := sockets s @ [CONNECTING], wsRef := Some (new_socket s)\<rparr>)
   \<and> reconnectAttemptsRef (perform a s) =
        (if delivers_ready a s then 0
         else if fires_timer a s then Suc (reconnectAttemptsRef s)
         else reconnectAttemptsRef s)
   \<and> (reconnectAttemptsRef s = 5 \<and> (\<forall>b \<in> set acts. \<not> is_ready_message b) \<longrightarrow>
        5 \<le> reconnectAttemptsRef (run acts (connect s))
      \<and> length (timers (run acts (connect s))) = length (timers s)
      \<and> (\<forall>j. closable (run acts (connect s)) j \<longrightarrow>
            timers (socket_close j (run acts (connect s))) = timers (run acts (connect s))
          \<and> error (socket_close j (run acts (connect s)))
              = JStr ''Failed to reconnect after multiple attempts''))
   \<and> (reconnectAttemptsRef s = 5 \<and> wsOpen s = None \<and> urlAccepted s \<longrightarrow>
        timers (socket_close (new_socket s) (connect s)) = timers s
      \<and> error (socket_close (new_socket s) (connect s))
          = JStr ''Failed to reconnect after multiple attempts''
      \<and> reconnectAttemptsRef (socket_open (new_socket s) (connect s)) = 5
      \<and> connectionStatus (socket_open (new_socket s) (connect s)) = Connected
      \<and> timers (socket_close (new_socket s) (socket_open (new_socket s) (connect s))) = timers s
      \<and> error (socket_close (new_socket s) (socket_open (new_socket s) (connect s)))
          = JStr ''Failed to reconnect after multiple attempts''
      \<and> (\<forall>f. \<not> typed ''ready'' f \<longrightarrow>
            reconnectAttemptsRef
              (socket_message (new_socket s) f (socket_open (new_socket s) (connect s))) = 5
          \<and> timers (socket_close (new_socket s)
              (socket_message (new_socket s) f (socket_open (new_socket s) (connect s))))
              = timers s
          \<and> error (socket_close (new_socket s)
              (socket_message (new_socket s) f (socket_open (new_socket s) (connect s))))
              = JStr ''Failed to reconnect after multiple attempts'')
      \<and> (\<forall>f. typed ''ready'' f \<longrightarrow>
            reconnectAttemptsRef
              (socket_message (new_socket s) f (socket_open (new_socket s) (connect s))) = 0
          \<and> connectionStatus
              (socket_message (new_socket s) f (socket_open (new_socket s) (connect s))) = Ready
          \<and> timers (socket_close (new_socket s)
              (socket_message (new_socket s) f (socket_open (new_socket s) (connect s))))
              = timers s @ [(1000, Pending)]))"
proof -
  let ?k = "new_socket s"
  let ?c = "connect s"
  let ?o = "socket_open ?k ?c"
  have A: "reconnectAttemptsRef ?c = reconnectAttemptsRef s"
    by (rule connect_keeps_counter)
  have B: "\<forall>i. wsOpen s = Some i \<longrightarrow> ?c = s"
    by (simp add: connect_open)
  have C: "wsOpen s = None \<and> \<not> urlAccepted s \<longrightarrow>
        ?c = s\<lparr>connectionStatus := ErrorStatus, error := JStr ''Failed to establish connection''\<rparr>"
    by (simp add: connect_refused)
  have D: "wsOpen s = None \<and> urlAccepted s \<longrightarrow>
        ?c = s\<lparr>connectionStatus := Connecting, error := JNull,
                      sockets := sockets s @ [CONNECTING], wsRef := Some ?k\<rparr>"
    by (simp add: connect_new new_socket_def)
  have E: "reconnectAttemptsRef (perform a s) =
        (if delivers_ready a s then 0
         else if fires_timer a s then Suc (reconnectAttemptsRef s)
         else reconnectAttemptsRef s)"
    by (rule perform_counter)
  have F: "5 \<le> reconnectAttemptsRef (run acts ?c)
      \<and> length (timers (run acts ?c)) = length (timers s)
      \<and> (\<forall>j. closable (run acts ?c) j \<longrightarrow>
            timers (socket_close j (run acts ?c)) = timers (run acts ?c)
          \<and> error (socket_close j (run acts ?c))
              = JStr ''Failed to reconnect after multiple attempts'')"
    if a: "reconnectAttemptsRef s = 5" and q: "\<forall>b \<in> set acts. \<not> is_ready_message b"
  proof -
    from a have "5 \<le> reconnectAttemptsRef ?c" by (simp add: connect_keeps_counter)
    from run_below_ready[OF this q]
    have r: "5 \<le> reconnectAttemptsRef (run acts ?c)"
      and l: "length (timers (run acts ?c)) = length (timers s)"
      by (simp_all add: connect_keeps_timers)
    from r l close_at_ceiling[of "run acts ?c"] show ?thesis by simp
  qed
  have G: "timers (socket_close ?k ?c) = timers s
      \<and> error (socket_close ?k ?c) = JStr ''Failed to reconnect after multiple attempts''
      \<and> reconnectAttemptsRef ?o = 5
      \<and> connectionStatus ?o = Connected
      \<and> timers (socket_close ?k ?o) = timers s
      \<and> error (socket_close ?k ?o) = JStr ''Failed to reconnect after multiple attempts''
      \<and> (\<forall>f. \<not> typed ''ready'' f \<longrightarrow>
            reconnectAttemptsRef (socket_message ?k f ?o) = 5
          \<and> timers (socket_close ?k (socket_message ?k f ?o)) = timers s
          \<and> error (socket_close ?k (socket_message ?k f ?o))
              = JStr ''Failed to reconnect after multiple attempts'')
      \<and> (\<forall>f. typed ''ready'' f \<longrightarrow>
            reconnectAttemptsRef (socket_message ?k f ?o) = 0
          \<and> connectionStatus (socket_message ?k f ?o) = Ready
          \<and> timers (socket_close ?k (socket_message ?k f ?o)) = timers s @ [(1000, Pending)])"
    if a: "reconnectAttemptsRef s = 5" and o: "wsOpen s = None" and u: "urlAccepted s"
  proof -
    note c = connect_new[OF o u]
    note op = reopened[OF o u]
    have k: "?k = length (sockets s)" by (simp add: new_socket_def)
    have c1: "closable ?c ?k \<and> 5 \<le> reconnectAttemptsRef ?c \<and> timers ?c = timers s"
      unfolding c using a by (simp add: closable_iff k)
    have o1: "closable ?o ?k \<and> reconnectAttemptsRef ?o = 5 \<and> timers ?o = timers s
        \<and> connectionStatus ?o = Connected \<and> readyStateOf ?o ?k = Some OPEN"
      unfolding op using a by (simp add: closable_iff readyStateOf_def k)
    have g1: "timers (socket_close ?k ?c) = timers s
        \<and> error (socket_close ?k ?c) = JStr ''Failed to reconnect after multiple attempts''"
      using close_at_ceiling[of ?c ?k] c1 by simp
    have g2: "timers (socket_close ?k ?o) = timers s
        \<and> error (socket_close ?k ?o) = JStr ''Failed to reconnect after multiple attempts''"
      using close_at_ceiling[of ?o ?k] o1 by simp
    have g3: "reconnectAttemptsRef (socket_message ?k f ?o) = 5
          \<and> timers (socket_close ?k (socket_message ?k f ?o)) = timers s
          \<and> error (socket_close ?k (socket_message ?k f ?o))
              = JStr ''Failed to reconnect after multiple attempts''"
      if nf: "\<not> typed ''ready'' f" for f
    proof -
      have m: "socket_message ?k f ?o = handleMessage f ?o"
        using o1 by (simp add: socket_message_def)
      have m1: "reconnectAttemptsRef (handleMessage f ?o) = 5"
        using handleMessage_other_counter[OF nf, of ?o] o1 by simp
      have m2: "closable (handleMessage f ?o) ?k"
        using o1 by (simp add: closable_iff handleMessage_keeps_sockets)
      have m3: "timers (handleMessage f ?o) = timers s"
        using o1 by (simp add: handleMessage_keeps_timers)
      from close_at_ceiling[OF m2] m1 m3 show ?thesis unfolding m by simp
    qed
    have g4: "reconnectAttemptsRef (socket_message ?k f ?o) = 0
          \<and> connectionStatus (socket_message ?k f ?o) = Ready
          \<and> timers (socket_close ?k (socket_message ?k f ?o)) = timers s @ [(1000, Pending)]"
      if rf: "typed ''ready'' f" for f
    proof -
      have m: "socket_message ?k f ?o
          = ?o\<lparr>connectionStatus := Ready, error := JNull, reconnectAttemptsRef := 0\<rparr>"
        using o1 by (simp add: socket_message_def handleMessage_ready[OF rf])
      have m2: "closable (?o\<lparr>connectionStatus := Ready, error := JNull,
          reconnectAttemptsRef := 0\<rparr>) ?k"
        using o1 by (simp add: closable_iff)
      from socket_close_below[OF m2] o1 show ?thesis
        unfolding m by (simp add: backoff_values)
    qed
    from g1 g2 g3 g4 o1 show ?thesis by simp
  qed
  from A B C D E F G show ?thesis by blast
qed

text \<open>
  The claim as stated fails after five failed attempts: \<open>connect\<close> leaves the counter at
  5, and the close of the new socket schedules nothing.
\<close>

theorem connect_does_not_reset_attempts:
  "reconnectAttemptsRef exhausted_session = 5
   \<and> reconnectAttemptsRef (connect exhausted_session) = 5
   \<and> sockets (connect exhausted_session)
       = [CLOSED, CLOSED, CLOSED, CLOSED, CLOSED, CLOSED, CONNECTING]
   \<and> timers (socket_close 6 (connect exhausted_session)) = timers (connect exhausted_session)
   \<and> error (socket_close 6 (connect exhausted_session))
       = JStr ''Failed to reconnect after multiple attempts''"
proof -
  have c: "connect exhausted_session =
     exhausted_session\<lparr>connectionStatus := Connecting, error := JNull,
       sockets := sockets exhausted_session @ [CONNECTING],
       wsRef := Some (length (sockets exhausted_session))\<rparr>"
    by (rule connect_new) (simp_all add: exhausted_session_eq wsOpen_def readyStateOf_def)
  have cl: "closable (connect exhausted_session) 6"
    unfolding c by (simp add: exhausted_session_eq closable_iff)
  have nb: "\<not> reconnectAttemptsRef (connect exhausted_session) < 5"
    unfolding c by (simp add: exhausted_session_eq)
  show ?thesis
    unfolding socket_close_ceiling[OF cl nb] unfolding c
    by (simp add: exhausted_session_eq)
qed

theorem connect_after_ceiling_witness:
  "reconnectAttemptsRef exhausted_session = 5
   \<and> wsOpen exhausted_session = None
   \<and> urlAccepted exhausted_session
   \<and> new_socket exhausted_session = 6
   \<and> typed ''ready'' readyFrame
   \<and> \<not> typed ''ready'' (typeFrame ''processing'')
   \<and> list_all (\<lambda>b. \<not> is_ready_message b)
        [SocketOpen 6, SocketMessage 6 (typeFrame ''processing''), SocketClose 6, Connect]
   \<and> connectionStatus (connect exhausted_session) = Connecting
   \<and> wsRef (connect exhausted_session) = Some 6
   \<and> reconnectAttemptsRef (perform Connect exhausted_session) = 5
   \<and> reconnectAttemptsRef (socket_open 6 (connect exhausted_session)) = 5
   \<and> timers (socket_close 6 (socket_open 6 (connect exhausted_session)))
       = timers exhausted_session
   \<and> error (socket_close 6 (socket_open 6 (connect exhausted_session)))
       = JStr ''Failed to reconnect after multiple attempts''
   \<and> reconnectAttemptsRef
        (socket_message 6 (typeFrame ''processing'') (socket_open 6 (connect exhausted_session)))
       = 5
   \<and> reconnectAttemptsRef
        (socket_message 6 readyFrame (socket_open 6 (connect exhausted_session))) = 0
   \<and> timers (socket_close 6
        (socket_message 6 readyFrame (socket_open 6 (connect exhausted_session))))
       = timers exhausted_session @ [(1000, Pending)]
   \<and> 5 \<le> reconnectAttemptsRef
        (run [SocketOpen 6, SocketMessage 6 (typeFrame ''processing''), SocketClose 6, Connect]
           (connect exhausted_session))
   \<and> length (timers
        (run [SocketOpen 6, SocketMessage 6 (typeFrame ''processing''), SocketClose 6, Connect]
           (connect exhausted_session))) = 5"
proof -
  let ?acts = "[SocketOpen 6, SocketMessage 6 (typeFrame ''processing''), SocketClose 6, Connect]"
  have h: "reconnectAttemptsRef exhausted_session = 5 \<and> wsOpen exhausted_session = None
      \<and> urlAccepted exhausted_session \<and> new_socket exhausted_session = 6
      \<and> length (timers exhausted_session) = 5"
    by (simp add: exhausted_session_eq wsOpen_def readyStateOf_def new_socket_def)
  have t1: "typed ''ready'' readyFrame" by (simp add: typed_def readyFrame_def)
  have t2: "\<not> typed ''ready'' (typeFrame ''processing'')"
    by (simp add: typed_def typeFrame_def)
  have q: "\<forall>b \<in> set ?acts. \<not> is_ready_message b" using t2 by simp
  note inst = connect_after_ceiling[of exhausted_session Connect ?acts]
  from inst have iA: "reconnectAttemptsRef (connect exhausted_session)
      = reconnectAttemptsRef exhausted_session"
    by blast
  from inst have iD: "wsOpen exhausted_session = None \<and> urlAccepted exhausted_session \<longrightarrow>
      connect exhausted_session
      = exhausted_session\<lparr>connectionStatus := Connecting, error := JNull,
          sockets := sockets exhausted_session @ [CONNECTING],
          wsRef := Some (new_socket exhausted_session)\<rparr>"
    by blast
  from inst have iE: "reconnectAttemptsRef (perform Connect exhausted_session) =
        (if delivers_ready Connect exhausted_session then 0
         else if fires_timer Connect exhausted_session
              then Suc (reconnectAttemptsRef exhausted_session)
              else reconnectAttemptsRef exhausted_session)"
    by blast
  from inst h q have r: "5 \<le> reconnectAttemptsRef (run ?acts (connect exhausted_session))
      \<and> length (timers (run ?acts (connect exhausted_session)))
          = length (timers exhausted_session)"
    by blast
  from inst h have iG: "reconnectAttemptsRef
        (socket_open (new_socket exhausted_session) (connect exhausted_session)) = 5
   \<and> timers (socket_close (new_socket exhausted_session)
        (socket_open (new_socket exhausted_session) (connect exhausted_session)))
       = timers exhausted_session
   \<and> error (socket_close (new_socket exhausted_session)
        (socket_open (new_socket exhausted_session) (connect exhausted_session)))
       = JStr ''Failed to reconnect after multiple attempts''
   \<and> (\<forall>f. \<not> typed ''ready'' f \<longrightarrow>
        reconnectAttemptsRef
          (socket_message (new_socket exhausted_session) f
             (socket_open (new_socket exhausted_session) (connect exhausted_session))) = 5)
   \<and> (\<forall>f. typed ''ready'' f \<longrightarrow>
        reconnectAttemptsRef
          (socket_message (new_socket exhausted_session) f
             (socket_open (new_socket exhausted_session) (connect exhausted_session))) = 0
      \<and> timers (socket_close (new_socket exhausted_session)
          (socket_message (new_socket exhausted_session) f
             (socket_open (new_socket exhausted_session) (connect exhausted_session))))
          = timers exhausted_session @ [(1000, Pending)])"
    by blast
  from iD h have c1: "connectionStatus (connect exhausted_session) = Connecting
      \<and> wsRef (connect exhausted_session) = Some 6"
    by simp
  from iE iA h have p: "reconnectAttemptsRef (perform Connect exhausted_session) = 5"
    by simp
  from iG t1 t2 h have g: "reconnectAttemptsRef (socket_open 6 (connect exhausted_session)) = 5
   \<and> timers (socket_close 6 (socket_open 6 (connect exhausted_session)))
       = timers exhausted_session
   \<and> error (socket_close 6 (socket_open 6 (connect exhausted_session)))
       = JStr ''Failed to reconnect after multiple attempts''
   \<and> reconnectAttemptsRef
        (socket_message 6 (typeFrame ''processing'') (socket_open 6 (connect exhausted_session)))
       = 5
   \<and> reconnectAttemptsRef
        (socket_message 6 readyFrame (socket_open 6 (connect exhausted_session))) = 0
   \<and> timers (socket_close 6
        (socket_message 6 readyFrame (socket_open 6 (connect exhausted_session))))
       = timers exhausted_session @ [(1000, Pending)]"
    by simp
  from h t1 t2 q c1 r p g show ?thesis by (simp add: list_all_iff)
qed

section \<open>Disconnecting\<close>

lemma disconnect_forces_disconnected:
  "connectionStatus (disconnect s) = Disconnected \<and> wsRef (disconnect s) = None
   \<and> \<not> isRecording (disconnect s) \<and> \<not> isSpeaking (disconnect s)
   \<and> \<not> isProcessing (disconnect s)"
  by (simp add: disconnect_def Let_def split: option.splits)

lemma disconnected_session_eq:
  "disconnected_session =
     \<lparr> urlAccepted = True, sockets = [CLOSING], sent = [], timers = [],
       wsRef = None, reconnectTimeoutRef = None, reconnectAttemptsRef = 0,
       connectionStatus = Disconnected, error = JNull,
       isRecording = False, isSpeaking = False, isProcessing = False,
       result = JNull, accumulatedResults = [], statusInfo = JNull \<rparr>"
  by (simp add: disconnected_session_def disconnect_def ws_close_def readyStateOf_def
      ready_session_eq)

lemma after_disconnect_close_eq:
  "after_disconnect_close =
     \<lparr> urlAccepted = True, sockets = [CLOSED], sent = [], timers = [(1000, Pending)],
       wsRef = None, reconnectTimeoutRef = Some 1, reconnectAttemptsRef = 0,
       connectionStatus = Disconnected, error = JNull,
       isRecording = False, isSpeaking = False, isProcessing = False,
       result = JNull, accumulatedResults = [], statusInfo = JNull \<rparr>"
  using socket_close_below[of disconnected_session 0]
  by (simp add: after_disconnect_close_def disconnected_session_eq closable_iff backoff_values)

text \<open>
  Claim C1 says that after \<open>disconnect\<close> the status is disconnected, the pending
  reconnection timer is cancelled, and the close event that the call causes schedules no
  reconnection. The code does not meet the last part. \<open>disconnect\<close> closes the socket
  and forgets it, but leaves \<open>handleClose\<close> attached: on the ready session, the close
  event that follows creates a timeout of 1000 ms, which is pending after the call
  returned, and when it fires the hook connects again.
\<close>

theorem close_after_disconnect_schedules_reconnection:
  "connectionStatus disconnected_session = Disconnected
   \<and> timers disconnected_session = []
   \<and> sockets disconnected_session = [CLOSING]
   \<and> timers after_disconnect_close = [(1000, Pending)]
   \<and> reconnectTimeoutRef after_disconnect_close = Some 1
   \<and> timerPending after_disconnect_close 1
   \<and> sockets (timer_fire 1 after_disconnect_close) = [CLOSED, CONNECTING]
   \<and> wsRef (timer_fire 1 after_disconnect_close) = Some 1
   \<and> connectionStatus (timer_fire 1 after_disconnect_close) = Connecting"
  by (simp add: disconnected_session_eq after_disconnect_close_eq timerPending_def
      timer_fire_def reconnect_def connect_def wsOpen_def)

text \<open>The same for every session that holds a socket not yet closed, below the ceiling.\<close>

lemma close_after_disconnect:
  assumes "wsRef s = Some i" and "closable s i" and "reconnectAttemptsRef s < 5"
  shows "timers (socket_close i (disconnect s))
       = timers (disconnect s) @ [(backoff (reconnectAttemptsRef s), Pending)]"
proof -
  have a: "reconnectAttemptsRef (disconnect s) = reconnectAttemptsRef s"
    by (simp add: disconnect_def Let_def clearTimeout_def ws_close_def split: option.splits)
  have "closable (disconnect s) i"
    using assms(1,2)
    by (auto simp add: disconnect_def Let_def clearTimeout_def ws_close_def closable_iff
        readyStateOf_def split: option.splits)
  from socket_close_below[OF this] assms(3) a show ?thesis by simp
qed

end
